theory Spec2Isabelle
  imports Main
begin

section \<open>The job-board API client (src/services/api.ts)\<close>

text \<open>
  The class \<open>MongoDBAPI\<close> wraps \<open>fetch\<close>: a private helper \<open>request\<close> and the public
  methods built on it, plus \<open>submitPDF\<close> and \<open>downloadPDF\<close>, which call \<open>fetch\<close>
  themselves. The embedding passes the browser state explicitly: \<open>localStorage\<close>, the
  list of \<open>fetch\<close> calls made so far and the list of downloads handed to the browser.
  A rejected promise is \<open>Inl\<close> of the thrown value, a resolved one \<open>Inr\<close> of the value.
  The remote server is a function from the call to its outcome.

  Not modelled: the \<open>console\<close> output; other scripts running between two \<open>await\<close>s
  of one call; a \<open>localStorage\<close> that refuses access or is full.
\<close>

subsection \<open>JavaScript values\<close>

text \<open>
  A value as \<open>JSON.parse\<close> produces it, and \<open>undefined\<close>. The code never computes with
  a number: it only tests its truthiness and converts it to a string, so a number is
  represented by its \<open>Number.prototype.toString\<close> rendering (\<open>''0''\<close> for both zeros).
  The property \<open>k\<close> of \<open>JObj kvs\<close> is \<open>map_of kvs k\<close>.
\<close>

datatype jsval =
    JUndefined
  | JNull
  | JBool bool
  | JNum string
  | JStr string
  | JArr "jsval list"
  | JObj "(string \<times> jsval) list"

text \<open>A thrown value: the name of its constructor and its \<open>message\<close>.\<close>

datatype exn = Exn (exn_name: string) (exn_message: string)

text \<open>
  The two errors the engine itself throws here. The wording is V8's and differs between
  engines; the theorems below use of it only that the message is not empty.
\<close>

definition null_property_error :: exn where
  "null_property_error = Exn ''TypeError'' ''Cannot read properties of null''"

definition to_primitive_error :: exn where
  "to_primitive_error = Exn ''TypeError'' ''Cannot convert object to primitive value''"

text \<open>\<open>if (v)\<close> and \<open>v || w\<close>: ToBoolean.\<close>

fun truthy :: "jsval \<Rightarrow> bool" where
  "truthy JUndefined = False"
| "truthy JNull = False"
| "truthy (JBool b) = b"
| "truthy (JNum r) = (r \<noteq> ''0'' \<and> r \<noteq> ''NaN'')"
| "truthy (JStr s) = (s \<noteq> [])"
| "truthy (JArr xs) = True"
| "truthy (JObj kvs) = True"

definition js_or :: "jsval \<Rightarrow> jsval \<Rightarrow> jsval" where
  "js_or v w = (if truthy v then v else w)"

text \<open>
  \<open>v.k\<close> for the property names this file reads (\<open>message\<close>, \<open>token\<close>, \<open>id\<close>,
  \<open>name\<close>, \<open>email\<close>, \<open>role\<close>), none of which a prototype of a parsed value defines:
  reading from \<open>null\<close> or \<open>undefined\<close> throws, a missing property is \<open>undefined\<close>.
\<close>

fun get_prop :: "jsval \<Rightarrow> string \<Rightarrow> exn + jsval" where
  "get_prop JUndefined k = Inl null_property_error"
| "get_prop JNull k = Inl null_property_error"
| "get_prop (JObj kvs) k = Inr (case map_of kvs k of None \<Rightarrow> JUndefined | Some v \<Rightarrow> v)"
| "get_prop v k = Inr JUndefined"

text \<open>
  ToString, as \<open>new Error(v)\<close>, a template literal and \<open>localStorage.setItem\<close> apply it.
  An array joins its elements with commas, \<open>null\<close> and \<open>undefined\<close> elements as the
  empty string. A parsed object is \<open>[object Object]\<close> unless it has an own property
  \<open>toString\<close>, which cannot be callable, and then the conversion throws.
\<close>

fun to_string :: "jsval \<Rightarrow> exn + string"
  and join :: "jsval list \<Rightarrow> exn + string" where
  "to_string JUndefined = Inr ''undefined''"
| "to_string JNull = Inr ''null''"
| "to_string (JBool b) = Inr (if b then ''true'' else ''false'')"
| "to_string (JNum r) = Inr r"
| "to_string (JStr s) = Inr s"
| "to_string (JArr xs) = join xs"
| "to_string (JObj kvs) =
     (if map_of kvs ''toString'' = None then Inr ''[object Object]''
      else Inl to_primitive_error)"
| "join [] = Inr []"
| "join (x # xs) =
     (case (if x = JUndefined \<or> x = JNull then Inr [] else to_string x) of
        Inl e \<Rightarrow> Inl e
      | Inr s \<Rightarrow>
          (if xs = [] then Inr s
           else (case join xs of Inl e \<Rightarrow> Inl e | Inr t \<Rightarrow> Inr (s @ '','' @ t))))"

text \<open>\<open>new Error(v)\<close>: the message is ToString of the argument unless it is \<open>undefined\<close>.\<close>

definition new_Error :: "jsval \<Rightarrow> exn + exn" where
  "new_Error v =
     (if v = JUndefined then Inr (Exn ''Error'' [])
      else (case to_string v of Inl e \<Rightarrow> Inl e | Inr s \<Rightarrow> Inr (Exn ''Error'' s)))"

text \<open>An object literal and the spread \<open>{...a, ...b}\<close> over string-keyed properties.\<close>

fun obj_set :: "string \<Rightarrow> 'v \<Rightarrow> (string \<times> 'v) list \<Rightarrow> (string \<times> 'v) list" where
  "obj_set k v [] = [(k, v)]"
| "obj_set k v ((k', v') # ps) =
     (if k' = k then (k, v) # ps else (k', v') # obj_set k v ps)"

definition spread :: "(string \<times> 'v) list \<Rightarrow> (string \<times> 'v) list \<Rightarrow> (string \<times> 'v) list" where
  "spread a b = fold (\<lambda>(k, v). obj_set k v) b a"

subsection \<open>The browser: storage, fetch, downloads\<close>

type_synonym blob = string

record js_file =
  file_name :: string
  file_bytes :: blob

text \<open>
  What a call passes as \<open>body\<close>: the text \<open>JSON.stringify(v)\<close>, or a \<open>FormData\<close> with
  its appended entries.
\<close>

datatype req_body = JSON_stringify jsval | FormData "(string \<times> js_file) list"

text \<open>The \<open>RequestInit\<close> fields the code sets; \<open>None\<close> is a field left out.\<close>

record RequestInit =
  init_method :: "string option"
  init_headers :: "(string \<times> string) list option"
  init_body :: "req_body option"

definition no_options :: RequestInit where
  "no_options = \<lparr>init_method = None, init_headers = None, init_body = None\<rparr>"

record fetch_call =
  url :: string
  init :: RequestInit

text \<open>\<open>fetch\<close> sends GET when the init names no method.\<close>

definition http_method :: "fetch_call \<Rightarrow> string" where
  "http_method c = (case init_method (init c) of None \<Rightarrow> ''GET'' | Some m \<Rightarrow> m)"

definition header :: "fetch_call \<Rightarrow> string \<Rightarrow> string option" where
  "header c k = (case init_headers (init c) of None \<Rightarrow> None | Some hs \<Rightarrow> map_of hs k)"

text \<open>
  A response: its status, and what \<open>response.json()\<close> and \<open>response.blob()\<close> settle
  with (\<open>Inl\<close>: the promise rejects, as \<open>json()\<close> does on a body that is not JSON).
\<close>

record response =
  status :: nat
  json_body :: "exn + jsval"
  blob_body :: "exn + blob"

definition ok :: "response \<Rightarrow> bool" where
  "ok r = (200 \<le> status r \<and> status r \<le> 299)"

text \<open>The network and server: \<open>Inl\<close> when \<open>fetch\<close> itself rejects.\<close>

type_synonym net = "fetch_call \<Rightarrow> exn + response"

record world =
  storage :: "string \<rightharpoonup> string"
  fetches :: "fetch_call list"
  downloads :: "(string \<times> blob) list"

definition do_fetch :: "net \<Rightarrow> fetch_call \<Rightarrow> world \<Rightarrow> (exn + response) \<times> world" where
  "do_fetch srv c w = (srv c, w\<lparr>fetches := fetches w @ [c]\<rparr>)"

text \<open>\<open>`${localStorage.getItem(k)}`\<close>: a missing entry is \<open>null\<close>, printed as such.\<close>

definition getItem_text :: "world \<Rightarrow> string \<Rightarrow> string" where
  "getItem_text w k = (case storage w k of None \<Rightarrow> ''null'' | Some t \<Rightarrow> t)"

subsection \<open>The class\<close>

record MongoDBAPI =
  baseURL :: string

text \<open>
  \<open>API_BASE = import.meta.env.VITE_API_BASE_URL || ''\<close> and the constructor's
  \<open>baseURL || API_BASE\<close>; an empty string is falsy.
\<close>

definition API_BASE :: "string option \<Rightarrow> string" where
  "API_BASE env = (case env of None \<Rightarrow> [] | Some s \<Rightarrow> s)"

definition new_MongoDBAPI :: "string option \<Rightarrow> string option \<Rightarrow> MongoDBAPI" where
  "new_MongoDBAPI env b =
     \<lparr>baseURL = (case b of None \<Rightarrow> API_BASE env
                 | Some s \<Rightarrow> if s \<noteq> [] then s else API_BASE env)\<rparr>"

type_synonym 'a promise = "(exn + 'a) \<times> world"

text \<open>
  The error a non-success response is turned into by \<open>request\<close> and \<open>submitPDF\<close>:
  \<open>error = await response.json().catch(() => ({ message: 'Unknown error' }))\<close>, then
  \<open>throw new Error(error.message || 'API request failed')\<close>. Reading \<open>message\<close> or
  building the \<open>Error\<close> may itself throw; that value is then the one thrown.
\<close>

definition failure_of :: "response \<Rightarrow> exn" where
  "failure_of r =
     (let error = (case json_body r of
                     Inl _ \<Rightarrow> JObj [(''message'', JStr ''Unknown error'')]
                   | Inr v \<Rightarrow> v)
      in case get_prop error ''message'' of
           Inl e \<Rightarrow> e
         | Inr m \<Rightarrow>
             (case new_Error (js_or m (JStr ''API request failed'')) of
                Inl e \<Rightarrow> e
              | Inr e \<Rightarrow> e))"

definition default_headers :: "world \<Rightarrow> (string \<times> string) list" where
  "default_headers w =
     (let defaultHeaders = [(''Content-Type'', ''application/json''),
                            (''Accept'', ''application/json'')]
      in case storage w ''authToken'' of
           None \<Rightarrow> defaultHeaders
         | Some token \<Rightarrow>
             if token \<noteq> [] then obj_set ''Authorization'' (''Bearer '' @ token) defaultHeaders
             else defaultHeaders)"

definition request_call :: "MongoDBAPI \<Rightarrow> string \<Rightarrow> RequestInit \<Rightarrow> world \<Rightarrow> fetch_call" where
  "request_call api endpoint options w =
     \<lparr>url = baseURL api @ endpoint,
      init = options\<lparr>init_headers :=
               Some (spread (default_headers w)
                       (case init_headers options of None \<Rightarrow> [] | Some hs \<Rightarrow> hs))\<rparr>\<rparr>"

definition request :: "MongoDBAPI \<Rightarrow> net \<Rightarrow> string \<Rightarrow> RequestInit \<Rightarrow> world \<Rightarrow> jsval promise" where
  "request api srv endpoint options w =
     (case do_fetch srv (request_call api endpoint options w) w of
        (Inl e, w1) \<Rightarrow> (Inl e, w1)
      | (Inr response, w1) \<Rightarrow>
          if \<not> ok response then (Inl (failure_of response), w1)
          else (json_body response, w1))"

text \<open>The object both \<open>login\<close> and \<open>registerUser\<close> build from the decoded response.\<close>

definition user_of :: "jsval \<Rightarrow> exn + jsval" where
  "user_of r =
     (case get_prop r ''id'' of
        Inl e \<Rightarrow> Inl e
      | Inr i \<Rightarrow>
          (case get_prop r ''name'' of
             Inl e \<Rightarrow> Inl e
           | Inr n \<Rightarrow>
               (case get_prop r ''email'' of
                  Inl e \<Rightarrow> Inl e
                | Inr m \<Rightarrow>
                    (case get_prop r ''role'' of
                       Inl e \<Rightarrow> Inl e
                     | Inr ro \<Rightarrow>
                         Inr (JObj [(''id'', i), (''name'', n),
                                    (''email'', m), (''role'', ro)])))))"

text \<open>
  \<open>localStorage.setItem('authToken', response.token)\<close> followed by the \<open>return\<close>:
  \<open>setItem\<close> stores ToString of its argument.
\<close>

definition store_token_and_return :: "jsval \<Rightarrow> world \<Rightarrow> jsval promise" where
  "store_token_and_return r w =
     (case get_prop r ''token'' of
        Inl e \<Rightarrow> (Inl e, w)
      | Inr tok \<Rightarrow>
          (case to_string tok of
             Inl e \<Rightarrow> (Inl e, w)
           | Inr s \<Rightarrow> (user_of r, w\<lparr>storage := (storage w)(''authToken'' \<mapsto> s)\<rparr>)))"

definition login :: "MongoDBAPI \<Rightarrow> net \<Rightarrow> string \<Rightarrow> string \<Rightarrow> world \<Rightarrow> jsval promise" where
  "login api srv email password w =
     (case request api srv ''/users/login''
             \<lparr>init_method = Some ''POST'', init_headers = None,
              init_body = Some (JSON_stringify
                 (JObj [(''email'', JStr email), (''password'', JStr password)]))\<rparr> w of
        (Inl e, w1) \<Rightarrow> (Inl e, w1)
      | (Inr r, w1) \<Rightarrow> store_token_and_return r w1)"

definition logout :: "MongoDBAPI \<Rightarrow> world \<Rightarrow> jsval promise" where
  "logout api w = (Inr JUndefined, w\<lparr>storage := (storage w)(''authToken'' := None)\<rparr>)"

definition getCurrentUser :: "MongoDBAPI \<Rightarrow> net \<Rightarrow> world \<Rightarrow> jsval promise" where
  "getCurrentUser api srv w =
     (case request api srv ''/users/me'' no_options w of
        (Inl e, w1) \<Rightarrow> (Inr JNull, w1)
      | (Inr r, w1) \<Rightarrow> (Inr r, w1))"

definition registerUser :: "MongoDBAPI \<Rightarrow> net \<Rightarrow> jsval \<Rightarrow> world \<Rightarrow> jsval promise" where
  "registerUser api srv userData w =
     (case request api srv ''/users/register''
             \<lparr>init_method = Some ''POST'', init_headers = None,
              init_body = Some (JSON_stringify userData)\<rparr> w of
        (Inl e, w1) \<Rightarrow> (Inl e, w1)
      | (Inr r, w1) \<Rightarrow> store_token_and_return r w1)"

subsection \<open>Jobs\<close>

text \<open>
  \<open>URLSearchParams.toString()\<close>: the pairs as \<open>name=value\<close> joined by \<open>&\<close>, each
  part passed through the form-urlencoded byte serialiser (a string is its UTF-8 bytes).
\<close>

definition hex_digit :: "nat \<Rightarrow> char" where
  "hex_digit n = ''0123456789ABCDEF'' ! (n mod 16)"

definition urlencode_byte :: "char \<Rightarrow> string" where
  "urlencode_byte c =
     (if c = CHR '' '' then ''+''
      else if c \<in> set ''*-._0123456789ABCDEFGHIJKLMNOPQRSTUVWXYZabcdefghijklmnopqrstuvwxyz''
      then [c]
      else [CHR ''%'', hex_digit (of_char c div 16), hex_digit (of_char c mod 16)])"

definition urlencode :: "string \<Rightarrow> string" where
  "urlencode s = concat (map urlencode_byte s)"

fun URLSearchParams_toString :: "(string \<times> string) list \<Rightarrow> string" where
  "URLSearchParams_toString [] = []"
| "URLSearchParams_toString [(k, v)] = urlencode k @ ''='' @ urlencode v"
| "URLSearchParams_toString ((k, v) # p # ps) =
     urlencode k @ ''='' @ urlencode v @ ''&'' @ URLSearchParams_toString (p # ps)"

text \<open>The optional argument of \<open>getJobs\<close>; \<open>None\<close> is a field left out.\<close>

record job_filters =
  filter_status :: "string option"
  filter_category :: "string option"
  filter_priority :: "string option"
  filter_search :: "string option"

text \<open>\<open>if (filters?.f) params.append(name, filters.f)\<close>: an empty string is falsy.\<close>

definition append_if :: "string \<Rightarrow> string option \<Rightarrow> (string \<times> string) list \<Rightarrow> (string \<times> string) list" where
  "append_if name v params =
     (case v of None \<Rightarrow> params
      | Some s \<Rightarrow> if s \<noteq> [] then params @ [(name, s)] else params)"

definition jobs_params :: "job_filters option \<Rightarrow> (string \<times> string) list" where
  "jobs_params filters =
     (case filters of
        None \<Rightarrow> []
      | Some f \<Rightarrow>
          append_if ''search'' (filter_search f)
            (append_if ''priority'' (filter_priority f)
               (append_if ''category'' (filter_category f)
                  (append_if ''status'' (filter_status f) []))))"

definition jobs_endpoint :: "job_filters option \<Rightarrow> string" where
  "jobs_endpoint filters =
     (let q = URLSearchParams_toString (jobs_params filters)
      in if q \<noteq> [] then ''/jobs?'' @ q else ''/jobs'')"

definition getJobs :: "MongoDBAPI \<Rightarrow> net \<Rightarrow> job_filters option \<Rightarrow> world \<Rightarrow> jsval promise" where
  "getJobs api srv filters w = request api srv (jobs_endpoint filters) no_options w"

definition getJob :: "MongoDBAPI \<Rightarrow> net \<Rightarrow> string \<Rightarrow> world \<Rightarrow> jsval promise" where
  "getJob api srv ident w = request api srv (''/jobs/'' @ ident) no_options w"

definition createJob :: "MongoDBAPI \<Rightarrow> net \<Rightarrow> jsval \<Rightarrow> world \<Rightarrow> jsval promise" where
  "createJob api srv jobData w =
     request api srv ''/jobs''
       \<lparr>init_method = Some ''POST'', init_headers = None,
        init_body = Some (JSON_stringify jobData)\<rparr> w"

definition updateJob :: "MongoDBAPI \<Rightarrow> net \<Rightarrow> string \<Rightarrow> jsval \<Rightarrow> world \<Rightarrow> jsval promise" where
  "updateJob api srv ident jobData w =
     request api srv (''/jobs/'' @ ident)
       \<lparr>init_method = Some ''PUT'', init_headers = None,
        init_body = Some (JSON_stringify jobData)\<rparr> w"

text \<open>\<open>await this.request(...)\<close> with the value dropped: the method resolves with \<open>undefined\<close>.\<close>

definition discard :: "jsval promise \<Rightarrow> jsval promise" where
  "discard p = (case p of (Inl e, w1) \<Rightarrow> (Inl e, w1) | (Inr r, w1) \<Rightarrow> (Inr JUndefined, w1))"

definition deleteJob :: "MongoDBAPI \<Rightarrow> net \<Rightarrow> string \<Rightarrow> world \<Rightarrow> jsval promise" where
  "deleteJob api srv ident w =
     discard (request api srv (''/jobs/'' @ ident)
       \<lparr>init_method = Some ''DELETE'', init_headers = None, init_body = None\<rparr> w)"

definition claimJob :: "MongoDBAPI \<Rightarrow> net \<Rightarrow> string \<Rightarrow> world \<Rightarrow> jsval promise" where
  "claimJob api srv ident w =
     discard (request api srv (''/jobs/'' @ ident @ ''/claim'')
       \<lparr>init_method = Some ''POST'', init_headers = None, init_body = None\<rparr> w)"

datatype JobStatus = Open | Claimed | In_progress | Completed | Cancelled

fun JobStatus_text :: "JobStatus \<Rightarrow> string" where
  "JobStatus_text Open = ''open''"
| "JobStatus_text Claimed = ''claimed''"
| "JobStatus_text In_progress = ''in-progress''"
| "JobStatus_text Completed = ''completed''"
| "JobStatus_text Cancelled = ''cancelled''"

definition updateJobStatus :: "MongoDBAPI \<Rightarrow> net \<Rightarrow> string \<Rightarrow> JobStatus \<Rightarrow> world \<Rightarrow> jsval promise" where
  "updateJobStatus api srv ident st w =
     discard (request api srv (''/jobs/'' @ ident @ ''/status'')
       \<lparr>init_method = Some ''POST'', init_headers = None,
        init_body = Some (JSON_stringify (JObj [(''status'', JStr (JobStatus_text st))]))\<rparr> w)"

definition submitPDF_call :: "MongoDBAPI \<Rightarrow> string \<Rightarrow> js_file \<Rightarrow> world \<Rightarrow> fetch_call" where
  "submitPDF_call api ident f w =
     \<lparr>url = baseURL api @ ''/jobs/'' @ ident @ ''/submit'',
      init = \<lparr>init_method = Some ''POST'',
              init_headers = Some [(''Authorization'', ''Bearer '' @ getItem_text w ''authToken'')],
              init_body = Some (FormData [(''submission'', f)])\<rparr>\<rparr>"

definition submitPDF :: "MongoDBAPI \<Rightarrow> net \<Rightarrow> string \<Rightarrow> js_file \<Rightarrow> world \<Rightarrow> jsval promise" where
  "submitPDF api srv ident f w =
     (case do_fetch srv (submitPDF_call api ident f w) w of
        (Inl e, w1) \<Rightarrow> (Inl e, w1)
      | (Inr response, w1) \<Rightarrow>
          if \<not> ok response then (Inl (failure_of response), w1)
          else (json_body response, w1))"

definition downloadPDF_call :: "MongoDBAPI \<Rightarrow> string \<Rightarrow> world \<Rightarrow> fetch_call" where
  "downloadPDF_call api ident w =
     \<lparr>url = baseURL api @ ''/jobs/'' @ ident @ ''/download'',
      init = \<lparr>init_method = Some ''GET'',
              init_headers = Some [(''Authorization'', ''Bearer '' @ getItem_text w ''authToken'')],
              init_body = None\<rparr>\<rparr>"

text \<open>
  The anchor element that \<open>downloadPDF\<close> creates, clicks and removes hands the blob to
  the browser under the name \<open>submission-<id>.pdf\<close>: one entry of \<open>downloads\<close>.
\<close>

definition downloadPDF :: "MongoDBAPI \<Rightarrow> net \<Rightarrow> string \<Rightarrow> world \<Rightarrow> jsval promise" where
  "downloadPDF api srv ident w =
     (case do_fetch srv (downloadPDF_call api ident w) w of
        (Inl e, w1) \<Rightarrow> (Inl e, w1)
      | (Inr response, w1) \<Rightarrow>
          if \<not> ok response then (Inl (Exn ''Error'' ''Failed to download PDF''), w1)
          else (case blob_body response of
                  Inl e \<Rightarrow> (Inl e, w1)
                | Inr b \<Rightarrow>
                    (Inr JUndefined,
                     w1\<lparr>downloads := downloads w1 @ [(''submission-'' @ ident @ ''.pdf'', b)]\<rparr>)))"

subsection \<open>Users\<close>

definition getUsers :: "MongoDBAPI \<Rightarrow> net \<Rightarrow> world \<Rightarrow> jsval promise" where
  "getUsers api srv w = request api srv ''/users'' no_options w"

definition createUser :: "MongoDBAPI \<Rightarrow> net \<Rightarrow> jsval \<Rightarrow> world \<Rightarrow> jsval promise" where
  "createUser api srv userData w =
     request api srv ''/users/register''
       \<lparr>init_method = Some ''POST'', init_headers = None,
        init_body = Some (JSON_stringify userData)\<rparr> w"

definition updateUser :: "MongoDBAPI \<Rightarrow> net \<Rightarrow> string \<Rightarrow> jsval \<Rightarrow> world \<Rightarrow> jsval promise" where
  "updateUser api srv ident userData w =
     request api srv (''/users/'' @ ident)
       \<lparr>init_method = Some ''PUT'', init_headers = None,
        init_body = Some (JSON_stringify userData)\<rparr> w"

definition deleteUser :: "MongoDBAPI \<Rightarrow> net \<Rightarrow> string \<Rightarrow> world \<Rightarrow> jsval promise" where
  "deleteUser api srv ident w =
     discard (request api srv (''/users/'' @ ident)
       \<lparr>init_method = Some ''DELETE'', init_headers = None, init_body = None\<rparr> w)"

subsection \<open>Any call of a public method\<close>

datatype operation =
    Login string string
  | Logout
  | GetCurrentUser
  | RegisterUser jsval
  | GetJobs "job_filters option"
  | GetJob string
  | CreateJob jsval
  | UpdateJob string jsval
  | DeleteJob string
  | ClaimJob string
  | UpdateJobStatus string JobStatus
  | SubmitPDF string js_file
  | DownloadPDF string
  | GetUsers
  | CreateUser jsval
  | UpdateUser string jsval
  | DeleteUser string

fun run :: "MongoDBAPI \<Rightarrow> net \<Rightarrow> operation \<Rightarrow> world \<Rightarrow> jsval promise" where
  "run api srv (Login email password) w = login api srv email password w"
| "run api srv Logout w = logout api w"
| "run api srv GetCurrentUser w = getCurrentUser api srv w"
| "run api srv (RegisterUser userData) w = registerUser api srv userData w"
| "run api srv (GetJobs filters) w = getJobs api srv filters w"
| "run api srv (GetJob ident) w = getJob api srv ident w"
| "run api srv (CreateJob jobData) w = createJob api srv jobData w"
| "run api srv (UpdateJob ident jobData) w = updateJob api srv ident jobData w"
| "run api srv (DeleteJob ident) w = deleteJob api srv ident w"
| "run api srv (ClaimJob ident) w = claimJob api srv ident w"
| "run api srv (UpdateJobStatus ident st) w = updateJobStatus api srv ident st w"
| "run api srv (SubmitPDF ident f) w = submitPDF api srv ident f w"
| "run api srv (DownloadPDF ident) w = downloadPDF api srv ident w"
| "run api srv GetUsers w = getUsers api srv w"
| "run api srv (CreateUser userData) w = createUser api srv userData w"
| "run api srv (UpdateUser ident userData) w = updateUser api srv ident userData w"
| "run api srv (DeleteUser ident) w = deleteUser api srv ident w"

text \<open>
  The methods that store the token of the response, and those that call \<open>fetch\<close>
  themselves instead of going through \<open>request\<close>.
\<close>

fun stores_token :: "operation \<Rightarrow> bool" where
  "stores_token (Login email password) = True"
| "stores_token (RegisterUser userData) = True"
| "stores_token op = False"

fun own_fetch :: "operation \<Rightarrow> bool" where
  "own_fetch (SubmitPDF ident f) = True"
| "own_fetch (DownloadPDF ident) = True"
| "own_fetch op = False"



subsection \<open>The endpoints as the specification documents them\<close>

text \<open>
  Section 6 of the specification: POST /users/login, POST /users/register,
  GET /users/me, GET /users, PUT/DELETE /users/:id, GET/POST /jobs,
  GET/PUT/DELETE /jobs/:id, POST /jobs/:id/claim, POST /jobs/:id/status,
  POST /jobs/:id/submit (multipart), GET /jobs/:id/download (binary); the bodies are
  those the specification names (\<open>{email, password}\<close>, \<open>{status}\<close>) and otherwise the
  data argument of the method. \<open>logout\<close> has no endpoint.
\<close>

fun documented_method :: "operation \<Rightarrow> string" where
  "documented_method (Login email password) = ''POST''"
| "documented_method Logout = []"
| "documented_method GetCurrentUser = ''GET''"
| "documented_method (RegisterUser userData) = ''POST''"
| "documented_method (GetJobs filters) = ''GET''"
| "documented_method (GetJob ident) = ''GET''"
| "documented_method (CreateJob jobData) = ''POST''"
| "documented_method (UpdateJob ident jobData) = ''PUT''"
| "documented_method (DeleteJob ident) = ''DELETE''"
| "documented_method (ClaimJob ident) = ''POST''"
| "documented_method (UpdateJobStatus ident st) = ''POST''"
| "documented_method (SubmitPDF ident f) = ''POST''"
| "documented_method (DownloadPDF ident) = ''GET''"
| "documented_method GetUsers = ''GET''"
| "documented_method (CreateUser userData) = ''POST''"
| "documented_method (UpdateUser ident userData) = ''PUT''"
| "documented_method (DeleteUser ident) = ''DELETE''"

fun documented_path :: "operation \<Rightarrow> string" where
  "documented_path (Login email password) = ''/users/login''"
| "documented_path Logout = []"
| "documented_path GetCurrentUser = ''/users/me''"
| "documented_path (RegisterUser userData) = ''/users/register''"
| "documented_path (GetJobs filters) = ''/jobs''"
| "documented_path (GetJob ident) = ''/jobs/'' @ ident"
| "documented_path (CreateJob jobData) = ''/jobs''"
| "documented_path (UpdateJob ident jobData) = ''/jobs/'' @ ident"
| "documented_path (DeleteJob ident) = ''/jobs/'' @ ident"
| "documented_path (ClaimJob ident) = ''/jobs/'' @ ident @ ''/claim''"
| "documented_path (UpdateJobStatus ident st) = ''/jobs/'' @ ident @ ''/status''"
| "documented_path (SubmitPDF ident f) = ''/jobs/'' @ ident @ ''/submit''"
| "documented_path (DownloadPDF ident) = ''/jobs/'' @ ident @ ''/download''"
| "documented_path GetUsers = ''/users''"
| "documented_path (CreateUser userData) = ''/users/register''"
| "documented_path (UpdateUser ident userData) = ''/users/'' @ ident"
| "documented_path (DeleteUser ident) = ''/users/'' @ ident"

fun documented_body :: "operation \<Rightarrow> req_body option" where
  "documented_body (Login email password) =
     Some (JSON_stringify (JObj [(''email'', JStr email), (''password'', JStr password)]))"
| "documented_body (RegisterUser userData) = Some (JSON_stringify userData)"
| "documented_body (CreateJob jobData) = Some (JSON_stringify jobData)"
| "documented_body (UpdateJob ident jobData) = Some (JSON_stringify jobData)"
| "documented_body (UpdateJobStatus ident st) =
     Some (JSON_stringify (JObj [(''status'', JStr (JobStatus_text st))]))"
| "documented_body (SubmitPDF ident f) = Some (FormData [(''submission'', f)])"
| "documented_body (CreateUser userData) = Some (JSON_stringify userData)"
| "documented_body (UpdateUser ident userData) = Some (JSON_stringify userData)"
| "documented_body op = None"

text \<open>The query string that \<open>getJobs\<close> adds to its path when a filter is set.\<close>

fun query_of :: "operation \<Rightarrow> string" where
  "query_of (GetJobs filters) =
     (let q = URLSearchParams_toString (jobs_params filters)
      in if q \<noteq> [] then ''?'' @ q else [])"
| "query_of op = []"

subsection \<open>The calls each method makes\<close>

text \<open>
  Read off the method bodies: the one \<open>fetch\<close> of \<open>request\<close> with the endpoint and
  options the method passes, the method's own \<open>fetch\<close>, or none.
\<close>

definition json_init :: "string \<Rightarrow> jsval \<Rightarrow> RequestInit" where
  "json_init m v =
     \<lparr>init_method = Some m, init_headers = None, init_body = Some (JSON_stringify v)\<rparr>"

definition bare_init :: "string \<Rightarrow> RequestInit" where
  "bare_init m = \<lparr>init_method = Some m, init_headers = None, init_body = None\<rparr>"

fun issued :: "MongoDBAPI \<Rightarrow> operation \<Rightarrow> world \<Rightarrow> fetch_call list" where
  "issued api (Login email password) w =
     [request_call api ''/users/login''
        (json_init ''POST'' (JObj [(''email'', JStr email), (''password'', JStr password)])) w]"
| "issued api Logout w = []"
| "issued api GetCurrentUser w = [request_call api ''/users/me'' no_options w]"
| "issued api (RegisterUser userData) w =
     [request_call api ''/users/register'' (json_init ''POST'' userData) w]"
| "issued api (GetJobs filters) w = [request_call api (jobs_endpoint filters) no_options w]"
| "issued api (GetJob ident) w = [request_call api (''/jobs/'' @ ident) no_options w]"
| "issued api (CreateJob jobData) w = [request_call api ''/jobs'' (json_init ''POST'' jobData) w]"
| "issued api (UpdateJob ident jobData) w =
     [request_call api (''/jobs/'' @ ident) (json_init ''PUT'' jobData) w]"
| "issued api (DeleteJob ident) w = [request_call api (''/jobs/'' @ ident) (bare_init ''DELETE'') w]"
| "issued api (ClaimJob ident) w =
     [request_call api (''/jobs/'' @ ident @ ''/claim'') (bare_init ''POST'') w]"
| "issued api (UpdateJobStatus ident st) w =
     [request_call api (''/jobs/'' @ ident @ ''/status'')
        (json_init ''POST'' (JObj [(''status'', JStr (JobStatus_text st))])) w]"
| "issued api (SubmitPDF ident f) w = [submitPDF_call api ident f w]"
| "issued api (DownloadPDF ident) w = [downloadPDF_call api ident w]"
| "issued api GetUsers w = [request_call api ''/users'' no_options w]"
| "issued api (CreateUser userData) w =
     [request_call api ''/users/register'' (json_init ''POST'' userData) w]"
| "issued api (UpdateUser ident userData) w =
     [request_call api (''/users/'' @ ident) (json_init ''PUT'' userData) w]"
| "issued api (DeleteUser ident) w = [request_call api (''/users/'' @ ident) (bare_init ''DELETE'') w]"

subsection \<open>Concrete browsers and servers\<close>

definition example_api :: MongoDBAPI where
  "example_api = \<lparr>baseURL = ''https://api.example''\<rparr>"

definition fresh_world :: world where
  "fresh_world = \<lparr>storage = Map.empty, fetches = [], downloads = []\<rparr>"

definition world_with_token :: "string \<Rightarrow> world" where
  "world_with_token t = fresh_world\<lparr>storage := [''authToken'' \<mapsto> t]\<rparr>"

text \<open>A browser that also keeps a setting of the page's own in \<open>localStorage\<close>.\<close>

definition themed_world :: "string \<Rightarrow> world" where
  "themed_world t = fresh_world\<lparr>storage := [''authToken'' \<mapsto> t, ''theme'' \<mapsto> ''dark'']\<rparr>"

text \<open>A network that is down, and a server that answers every call with one response.\<close>

definition srv_down :: net where
  "srv_down = (\<lambda>c. Inl (Exn ''TypeError'' ''Failed to fetch''))"

definition reply :: "response \<Rightarrow> net" where
  "reply r = (\<lambda>c. Inr r)"

text \<open>A 500 with an HTML body, a 400 whose message is an empty array, a 200 for a login.\<close>

definition html_500 :: response where
  "html_500 = \<lparr>status = 500,
               json_body = Inl (Exn ''SyntaxError'' ''Unexpected token <''),
               blob_body = Inr ''<html></html>''\<rparr>"

definition array_400 :: response where
  "array_400 = \<lparr>status = 400,
                json_body = Inr (JObj [(''message'', JArr [])]),
                blob_body = Inr []\<rparr>"

text \<open>A 404 with a message, a 403 without one, and a 500 whose body is \<open>null\<close>.\<close>

definition not_found_404 :: response where
  "not_found_404 = \<lparr>status = 404,
                    json_body = Inr (JObj [(''message'', JStr ''Job not found'')]),
                    blob_body = Inr []\<rparr>"

definition bare_403 :: response where
  "bare_403 = \<lparr>status = 403,
               json_body = Inr (JObj [(''error'', JStr ''forbidden'')]),
               blob_body = Inr []\<rparr>"

definition null_500 :: response where
  "null_500 = \<lparr>status = 500, json_body = Inr JNull, blob_body = Inr []\<rparr>"

definition alice :: jsval where
  "alice = JObj [(''id'', JStr ''u1''), (''name'', JStr ''Alice''),
                 (''email'', JStr ''a@x.org''), (''role'', JStr ''member''),
                 (''token'', JStr ''tok'')]"

definition alice_form :: jsval where
  "alice_form = JObj [(''name'', JStr ''Alice''), (''email'', JStr ''a@x.org''),
                      (''password'', JStr ''pw'')]"

definition alice_200 :: response where
  "alice_200 = \<lparr>status = 200, json_body = Inr alice, blob_body = Inr []\<rparr>"

section \<open>Properties\<close>

subsection \<open>What a call leaves behind\<close>

lemma snd_request:
  "snd (request api srv endpoint options w) =
     w\<lparr>fetches := fetches w @ [request_call api endpoint options w]\<rparr>"
  by (simp add: request_def do_fetch_def split: sum.splits)

lemma snd_discard: "snd (discard p) = snd p"
  by (simp add: discard_def split: prod.splits sum.splits)

lemma fetches_store_token: "fetches (snd (store_token_and_return r w)) = fetches w"
  by (simp add: store_token_and_return_def split: sum.splits)

lemma downloads_store_token: "downloads (snd (store_token_and_return r w)) = downloads w"
  by (simp add: store_token_and_return_def split: sum.splits)

lemma storage_store_token:
  "k \<noteq> ''authToken'' \<Longrightarrow> storage (snd (store_token_and_return r w)) k = storage w k"
  by (simp add: store_token_and_return_def split: sum.splits)

lemma fetches_login:
  "fetches (snd (login api srv email password w)) =
     fetches w @ [request_call api ''/users/login''
        (json_init ''POST'' (JObj [(''email'', JStr email), (''password'', JStr password)])) w]"
proof -
  let ?p = "request api srv ''/users/login''
        (json_init ''POST'' (JObj [(''email'', JStr email), (''password'', JStr password)])) w"
  have "fetches (snd (login api srv email password w)) = fetches (snd ?p)"
    by (cases ?p) (auto simp: login_def json_init_def fetches_store_token split: sum.splits)
  then show ?thesis by (simp add: snd_request)
qed

lemma fetches_registerUser:
  "fetches (snd (registerUser api srv userData w)) =
     fetches w @ [request_call api ''/users/register'' (json_init ''POST'' userData) w]"
proof -
  let ?p = "request api srv ''/users/register'' (json_init ''POST'' userData) w"
  have "fetches (snd (registerUser api srv userData w)) = fetches (snd ?p)"
    by (cases ?p) (auto simp: registerUser_def json_init_def fetches_store_token split: sum.splits)
  then show ?thesis by (simp add: snd_request)
qed

lemma snd_getCurrentUser:
  "snd (getCurrentUser api srv w) = snd (request api srv ''/users/me'' no_options w)"
  by (simp add: getCurrentUser_def split: prod.splits sum.splits)

lemma snd_submitPDF:
  "snd (submitPDF api srv ident f w) = w\<lparr>fetches := fetches w @ [submitPDF_call api ident f w]\<rparr>"
  by (simp add: submitPDF_def do_fetch_def split: sum.splits)

lemma fetches_downloadPDF:
  "fetches (snd (downloadPDF api srv ident w)) = fetches w @ [downloadPDF_call api ident w]"
  by (simp add: downloadPDF_def do_fetch_def split: sum.splits)

lemma storage_downloadPDF:
  "storage (snd (downloadPDF api srv ident w)) = storage w"
  by (simp add: downloadPDF_def do_fetch_def split: sum.splits)

lemma fetches_run:
  "fetches (snd (run api srv op w)) = fetches w @ issued api op w"
proof (cases op)
  case (Login email password)
  then show ?thesis by (simp add: fetches_login)
next
  case Logout
  then show ?thesis by (simp add: logout_def)
next
  case GetCurrentUser
  then show ?thesis by (simp add: snd_getCurrentUser snd_request)
next
  case (RegisterUser d)
  then show ?thesis by (simp add: fetches_registerUser)
next
  case (GetJobs f)
  then show ?thesis by (simp add: getJobs_def snd_request)
next
  case (GetJob i)
  then show ?thesis by (simp add: getJob_def snd_request)
next
  case (CreateJob d)
  then show ?thesis by (simp add: createJob_def snd_request json_init_def)
next
  case (UpdateJob i d)
  then show ?thesis by (simp add: updateJob_def snd_request json_init_def)
next
  case (DeleteJob i)
  then show ?thesis by (simp add: deleteJob_def snd_discard snd_request bare_init_def)
next
  case (ClaimJob i)
  then show ?thesis by (simp add: claimJob_def snd_discard snd_request bare_init_def)
next
  case (UpdateJobStatus i st)
  then show ?thesis by (simp add: updateJobStatus_def snd_discard snd_request json_init_def)
next
  case (SubmitPDF i f)
  then show ?thesis by (simp add: snd_submitPDF)
next
  case (DownloadPDF i)
  then show ?thesis by (simp add: fetches_downloadPDF)
next
  case GetUsers
  then show ?thesis by (simp add: getUsers_def snd_request)
next
  case (CreateUser d)
  then show ?thesis by (simp add: createUser_def snd_request json_init_def)
next
  case (UpdateUser i d)
  then show ?thesis by (simp add: updateUser_def snd_request json_init_def)
next
  case (DeleteUser i)
  then show ?thesis by (simp add: deleteUser_def snd_discard snd_request bare_init_def)
qed

subsection \<open>Headers\<close>

lemma map_of_obj_set: "map_of (obj_set k v ps) = (map_of ps)(k \<mapsto> v)"
  by (induction ps) auto

lemma map_of_spread_other:
  "k \<notin> fst ` set b \<Longrightarrow> map_of (spread a b) k = map_of a k"
  unfolding spread_def
proof (induction b arbitrary: a)
  case Nil
  then show ?case by simp
next
  case (Cons p b)
  obtain k' v' where p: "p = (k', v')" by (cases p)
  from Cons.prems p have "k' \<noteq> k" and "k \<notin> fst ` set b" by auto
  then show ?case using Cons.IH [of "obj_set k' v' a"] p
    by (simp add: map_of_obj_set)
qed

lemma header_request_call:
  "(case init_headers options of None \<Rightarrow> True | Some hs \<Rightarrow> k \<notin> fst ` set hs) \<Longrightarrow>
   header (request_call api endpoint options w) k = map_of (default_headers w) k"
  by (simp add: header_def request_call_def map_of_spread_other split: option.splits)

lemma authorization_default:
  "map_of (default_headers w) ''Authorization'' =
     (case storage w ''authToken'' of
        None \<Rightarrow> None
      | Some t \<Rightarrow> if t \<noteq> [] then Some (''Bearer '' @ t) else None)"
  by (simp add: default_headers_def Let_def map_of_obj_set split: option.splits)

lemma content_type_default:
  "map_of (default_headers w) ''Content-Type'' = Some ''application/json''"
  by (simp add: default_headers_def Let_def map_of_obj_set split: option.splits)

lemma header_issued:
  assumes "\<not> own_fetch op" and "op \<noteq> Logout"
  shows "\<exists>c. issued api op w = [c] \<and> (\<forall>k. header c k = map_of (default_headers w) k)"
  using assms
  by (cases op) (simp_all add: header_request_call json_init_def bare_init_def no_options_def)

lemma header_own_fetch:
  assumes "own_fetch op"
  shows "\<exists>c. issued api op w = [c] \<and>
     header c ''Authorization'' = Some (''Bearer '' @ getItem_text w ''authToken'')
     \<and> header c ''Content-Type'' = None"
  using assms
  by (cases op) (simp_all add: header_def submitPDF_call_def downloadPDF_call_def)

subsection \<open>Login and registration over the request helper\<close>

lemma request_resolves:
  assumes "fst (request api srv endpoint options w) = Inr v"
  shows "\<exists>r. srv (request_call api endpoint options w) = Inr r \<and> ok r \<and> json_body r = Inr v"
  using assms
  by (auto simp: request_def do_fetch_def split: sum.splits if_splits)

lemma store_token_resolves:
  assumes "fst (store_token_and_return v w) = Inr u"
  shows "\<exists>tok t. get_prop v ''token'' = Inr tok \<and> to_string tok = Inr t
     \<and> storage (snd (store_token_and_return v w)) ''authToken'' = Some t
     \<and> user_of v = Inr u"
  using assms
  by (auto simp: store_token_and_return_def split: sum.splits)

lemma then_store_resolves:
  assumes "fst (case request api srv endpoint options w of
                  (Inl e, w1) \<Rightarrow> (Inl e, w1)
                | (Inr r, w1) \<Rightarrow> store_token_and_return r w1) = Inr u"
  shows "\<exists>r v tok t. srv (request_call api endpoint options w) = Inr r \<and> ok r
     \<and> json_body r = Inr v \<and> get_prop v ''token'' = Inr tok \<and> to_string tok = Inr t
     \<and> storage (snd (case request api srv endpoint options w of
                  (Inl e, w1) \<Rightarrow> (Inl e, w1)
                | (Inr r, w1) \<Rightarrow> store_token_and_return r w1)) ''authToken'' = Some t
     \<and> user_of v = Inr u"
proof (cases "request api srv endpoint options w")
  case (Pair res w1)
  show ?thesis
  proof (cases res)
    case (Inl e)
    with Pair assms show ?thesis by simp
  next
    case (Inr v)
    with Pair have "fst (request api srv endpoint options w) = Inr v" by simp
    from request_resolves [OF this] obtain r
      where r: "srv (request_call api endpoint options w) = Inr r" "ok r" "json_body r = Inr v"
      by blast
    from Pair Inr assms have "fst (store_token_and_return v w1) = Inr u" by simp
    from store_token_resolves [OF this] obtain tok t
      where "get_prop v ''token'' = Inr tok" "to_string tok = Inr t"
        "storage (snd (store_token_and_return v w1)) ''authToken'' = Some t"
        "user_of v = Inr u"
      by blast
    with r Pair Inr show ?thesis by simp
  qed
qed

lemma request_answered:
  "srv (request_call api endpoint options w) = Inr r \<Longrightarrow> ok r \<Longrightarrow>
   fst (request api srv endpoint options w) = json_body r"
  by (simp add: request_def do_fetch_def)

lemma user_of_record:
  assumes "get_prop v ''token'' = Inr tok"
  shows "\<exists>i n m ro. get_prop v ''id'' = Inr i \<and> get_prop v ''name'' = Inr n
     \<and> get_prop v ''email'' = Inr m \<and> get_prop v ''role'' = Inr ro
     \<and> user_of v = Inr (JObj [(''id'', i), (''name'', n), (''email'', m), (''role'', ro)])"
  using assms by (cases v) (simp_all add: user_of_def)

lemma run_stores_token:
  assumes "stores_token op"
  shows "\<exists>endpoint options. \<forall>api srv w.
     run api srv op w =
       (case request api srv endpoint options w of
          (Inl e, w1) \<Rightarrow> (Inl e, w1)
        | (Inr r, w1) \<Rightarrow> store_token_and_return r w1)"
proof (cases op)
  case (Login email password)
  then show ?thesis by (auto simp: login_def)
next
  case (RegisterUser userData)
  then show ?thesis by (auto simp: registerUser_def)
qed (use assms in simp_all)


lemma then_store_stored:
  assumes "fst (request api srv endpoint options w) = Inr v"
    and "get_prop v ''token'' = Inr tok" and "to_string tok = Inr t"
  shows "(case request api srv endpoint options w of
            (Inl e, w1) \<Rightarrow> (Inl e, w1)
          | (Inr r, w1) \<Rightarrow> store_token_and_return r w1) =
         (user_of v,
          (snd (request api srv endpoint options w))\<lparr>storage := (storage w)(''authToken'' \<mapsto> t)\<rparr>)"
proof (cases "request api srv endpoint options w")
  case (Pair res w1)
  with assms(1) have res: "res = Inr v" by simp
  from Pair have "w1 = snd (request api srv endpoint options w)" by simp
  then have "storage w1 = storage w" by (simp add: snd_request)
  with Pair res assms(2,3) show ?thesis
    by (simp add: store_token_and_return_def)
qed


lemma user_of_after_token:
  "get_prop r ''token'' = Inr tok \<Longrightarrow> \<exists>u. user_of r = Inr u"
  by (cases r) (simp_all add: user_of_def)

lemma store_token_rejected:
  assumes "fst (store_token_and_return r w) = Inl e"
  shows "snd (store_token_and_return r w) = w"
proof (cases "get_prop r ''token''")
  case (Inl e')
  then show ?thesis by (simp add: store_token_and_return_def)
next
  case (Inr tok)
  from user_of_after_token [OF this] obtain u where u: "user_of r = Inr u" by blast
  show ?thesis
  proof (cases "to_string tok")
    case (Inl e')
    with Inr show ?thesis by (simp add: store_token_and_return_def)
  next
    case Inr': (Inr t)
    with Inr u assms show ?thesis by (simp add: store_token_and_return_def)
  qed
qed

text \<open>
  C5: of \<open>localStorage\<close> a call touches the \<open>authToken\<close> entry only. Every other
  entry is left as it was by every method. A method other than \<open>login\<close>,
  \<open>registerUser\<close> and \<open>logout\<close> leaves the whole of \<open>localStorage\<close> as it was;
  \<open>login\<close> and \<open>registerUser\<close> write the entry when they resolve and leave
  \<open>localStorage\<close> as it was when they reject; \<open>logout\<close> removes the entry. And a
  call reads nothing else: its outcome and its requests are the same in two browsers
  that agree on the \<open>authToken\<close> entry.
\<close>

text \<open>
  What a call of \<open>login\<close> or \<open>registerUser\<close> does, read from the answer of the server
  to its one request and, conversely, from the fact that it resolved.
\<close>

lemma stores_token_outcome:
  assumes "stores_token op"
  shows "\<exists>c. fetches (snd (run api srv op w)) = fetches w @ [c]
     \<and> (\<forall>r v tok t.
          srv c = Inr r \<and> ok r \<and> json_body r = Inr v
          \<and> get_prop v ''token'' = Inr tok \<and> to_string tok = Inr t \<longrightarrow>
            (\<exists>i n m ro. get_prop v ''id'' = Inr i \<and> get_prop v ''name'' = Inr n
               \<and> get_prop v ''email'' = Inr m \<and> get_prop v ''role'' = Inr ro
               \<and> fst (run api srv op w) =
                   Inr (JObj [(''id'', i), (''name'', n), (''email'', m), (''role'', ro)]))
            \<and> storage (snd (run api srv op w)) = (storage w)(''authToken'' \<mapsto> t))
     \<and> (\<forall>u. fst (run api srv op w) = Inr u \<longrightarrow>
          (\<exists>r v tok t.
             srv c = Inr r \<and> ok r \<and> json_body r = Inr v
             \<and> get_prop v ''token'' = Inr tok \<and> to_string tok = Inr t
             \<and> user_of v = Inr u
             \<and> storage (snd (run api srv op w)) = (storage w)(''authToken'' \<mapsto> t)
             \<and> (\<forall>s. tok = JStr s \<longrightarrow>
                   storage (snd (run api srv op w)) ''authToken'' = Some s)))"
proof -
  from run_stores_token [OF assms] obtain endpoint options where
    run: "\<And>api srv w. run api srv op w =
       (case request api srv endpoint options w of
          (Inl e, w1) \<Rightarrow> (Inl e, w1)
        | (Inr r, w1) \<Rightarrow> store_token_and_return r w1)"
    by blast
  let ?c = "request_call api endpoint options w"
  let ?p = "request api srv endpoint options w"
  have calls: "fetches (snd (run api srv op w)) = fetches w @ [?c]"
  proof (cases ?p)
    case (Pair res w1)
    then have "w1 = snd ?p" by simp
    then have "fetches w1 = fetches w @ [?c]" by (simp add: snd_request)
    with Pair show ?thesis
      by (cases res) (simp_all add: run fetches_store_token)
  qed
  have forward: "(\<exists>i n m ro. get_prop v ''id'' = Inr i \<and> get_prop v ''name'' = Inr n
               \<and> get_prop v ''email'' = Inr m \<and> get_prop v ''role'' = Inr ro
               \<and> fst (run api srv op w) =
                   Inr (JObj [(''id'', i), (''name'', n), (''email'', m), (''role'', ro)]))
            \<and> storage (snd (run api srv op w)) = (storage w)(''authToken'' \<mapsto> t)"
    if "srv ?c = Inr r \<and> ok r \<and> json_body r = Inr v
          \<and> get_prop v ''token'' = Inr tok \<and> to_string tok = Inr t" for r v tok t
  proof -
    from that have "fst ?p = Inr v" by (simp add: request_answered)
    with that have "run api srv op w =
        (user_of v, (snd ?p)\<lparr>storage := (storage w)(''authToken'' \<mapsto> t)\<rparr>)"
      by (simp add: run then_store_stored)
    moreover from that user_of_record [of v tok] obtain i n m ro
      where "get_prop v ''id'' = Inr i" "get_prop v ''name'' = Inr n"
        "get_prop v ''email'' = Inr m" "get_prop v ''role'' = Inr ro"
        "user_of v = Inr (JObj [(''id'', i), (''name'', n), (''email'', m), (''role'', ro)])"
      by blast
    ultimately show ?thesis by simp
  qed
  have backward: "\<exists>r v tok t.
             srv ?c = Inr r \<and> ok r \<and> json_body r = Inr v
             \<and> get_prop v ''token'' = Inr tok \<and> to_string tok = Inr t
             \<and> user_of v = Inr u
             \<and> storage (snd (run api srv op w)) = (storage w)(''authToken'' \<mapsto> t)
             \<and> (\<forall>s. tok = JStr s \<longrightarrow>
                   storage (snd (run api srv op w)) ''authToken'' = Some s)"
    if "fst (run api srv op w) = Inr u" for u
  proof -
    from that have "fst (case ?p of (Inl e, w1) \<Rightarrow> (Inl e, w1)
        | (Inr r, w1) \<Rightarrow> store_token_and_return r w1) = Inr u"
      by (simp add: run)
    from then_store_resolves [OF this] obtain r v tok t
      where a: "srv ?c = Inr r" "ok r" "json_body r = Inr v" "get_prop v ''token'' = Inr tok"
        "to_string tok = Inr t" "user_of v = Inr u"
      by blast
    then have "fst ?p = Inr v" by (simp add: request_answered)
    with a have "run api srv op w =
        (user_of v, (snd ?p)\<lparr>storage := (storage w)(''authToken'' \<mapsto> t)\<rparr>)"
      by (simp add: run then_store_stored)
    then have st: "storage (snd (run api srv op w)) = (storage w)(''authToken'' \<mapsto> t)"
      by simp
    moreover from a st have "\<forall>s. tok = JStr s \<longrightarrow>
        storage (snd (run api srv op w)) ''authToken'' = Some s"
      by auto
    ultimately show ?thesis using a by blast
  qed
  from calls forward backward show ?thesis by blast
qed


subsection \<open>The concrete server at work\<close>


lemma alice_fields:
  "get_prop alice ''token'' = Inr (JStr ''tok'')"
  "get_prop alice ''id'' = Inr (JStr ''u1'')"
  "get_prop alice ''name'' = Inr (JStr ''Alice'')"
  "get_prop alice ''email'' = Inr (JStr ''a@x.org'')"
  "get_prop alice ''role'' = Inr (JStr ''member'')"
  by (simp_all add: alice_def)

lemma alice_200_answer:
  "reply alice_200 c = Inr alice_200" "ok alice_200" "json_body alice_200 = Inr alice"
  by (simp_all add: reply_def alice_200_def ok_def)



section \<open>The claims\<close>

subsection \<open>The bearer token on outgoing requests\<close>

text \<open>
  C1, as the code has it. A method that goes through \<open>request\<close> sends
  \<open>Authorization: Bearer <token>\<close> exactly when a non-empty token is stored: the guard
  \<open>if (token)\<close> leaves the header out both when nothing is stored and when the stored
  token is the empty string. \<open>submitPDF\<close> and \<open>downloadPDF\<close> build the header
  themselves, and with a token stored it is \<open>Bearer <token>\<close>.
\<close>

theorem authorization_header:
  "(\<not> own_fetch op \<and> op \<noteq> Logout \<longrightarrow>
      (\<exists>c. fetches (snd (run api srv op w)) = fetches w @ [c] \<and>
           header c ''Authorization'' =
             (case storage w ''authToken'' of
                None \<Rightarrow> None
              | Some t \<Rightarrow> if t \<noteq> [] then Some (''Bearer '' @ t) else None)))
   \<and> (own_fetch op \<longrightarrow>
      (\<forall>t. storage w ''authToken'' = Some t \<longrightarrow>
         (\<exists>c. fetches (snd (run api srv op w)) = fetches w @ [c] \<and>
              header c ''Authorization'' = Some (''Bearer '' @ t))))"
proof (intro conjI impI allI)
  assume "\<not> own_fetch op \<and> op \<noteq> Logout"
  then obtain c where "issued api op w = [c]"
    and "header c ''Authorization'' = map_of (default_headers w) ''Authorization''"
    using header_issued [of op api w] by blast
  then show "\<exists>c. fetches (snd (run api srv op w)) = fetches w @ [c] \<and>
           header c ''Authorization'' =
             (case storage w ''authToken'' of
                None \<Rightarrow> None
              | Some t \<Rightarrow> if t \<noteq> [] then Some (''Bearer '' @ t) else None)"
    by (simp add: fetches_run authorization_default)
next
  fix t
  assume "own_fetch op" and t: "storage w ''authToken'' = Some t"
  then obtain c where "issued api op w = [c]"
    and "header c ''Authorization'' = Some (''Bearer '' @ getItem_text w ''authToken'')"
    using header_own_fetch [of op api w] by blast
  with t show "\<exists>c. fetches (snd (run api srv op w)) = fetches w @ [c] \<and>
              header c ''Authorization'' = Some (''Bearer '' @ t)"
    by (simp add: fetches_run getItem_text_def)
qed

text \<open>With the token \<open>abc\<close> stored, \<open>getUsers\<close> and \<open>downloadPDF\<close> both send \<open>Bearer abc\<close>.\<close>

theorem authorization_header_witness:
  "(\<not> own_fetch GetUsers \<and> GetUsers \<noteq> Logout)
   \<and> storage (world_with_token ''abc'') ''authToken'' = Some ''abc''
   \<and> header (last (fetches (snd (run example_api srv_down GetUsers (world_with_token ''abc'')))))
        ''Authorization'' = Some ''Bearer abc''
   \<and> own_fetch (DownloadPDF ''7'')
   \<and> header (last (fetches (snd (run example_api srv_down (DownloadPDF ''7'')
                                   (world_with_token ''abc'')))))
        ''Authorization'' = Some ''Bearer abc''"
  using authorization_header [of GetUsers example_api srv_down "world_with_token ''abc''"]
        authorization_header [of "DownloadPDF ''7''" example_api srv_down "world_with_token ''abc''"]
  by (auto simp: world_with_token_def fresh_world_def)

text \<open>
  C1 as stated fails twice. With the empty string stored under \<open>authToken\<close>, the one
  request of \<open>getUsers\<close> has no \<open>Authorization\<close> header. With nothing stored, the one
  request of \<open>downloadPDF\<close> has the header \<open>Bearer null\<close>.
\<close>

theorem authorization_header_counterexample:
  "storage (world_with_token []) ''authToken'' = Some []
   \<and> length (fetches (snd (run example_api srv_down GetUsers (world_with_token [])))) = 1
   \<and> header (last (fetches (snd (run example_api srv_down GetUsers (world_with_token [])))))
        ''Authorization'' = None
   \<and> storage fresh_world ''authToken'' = None
   \<and> length (fetches (snd (run example_api srv_down (DownloadPDF ''7'') fresh_world))) = 1
   \<and> header (last (fetches (snd (run example_api srv_down (DownloadPDF ''7'') fresh_world))))
        ''Authorization'' = Some ''Bearer null''"
  by (simp add: world_with_token_def fresh_world_def getUsers_def request_def do_fetch_def
      request_call_def default_headers_def spread_def no_options_def header_def
      downloadPDF_def downloadPDF_call_def getItem_text_def srv_down_def)

subsection \<open>Logout\<close>

text \<open>
  C7: after \<open>logout\<close> nothing is stored under \<open>authToken\<close>; the call makes no HTTP
  request and resolves (with \<open>undefined\<close>), whatever the state before.
\<close>

theorem logout_clears_token:
  "storage (snd (run api srv Logout w)) ''authToken'' = None
   \<and> fetches (snd (run api srv Logout w)) = fetches w
   \<and> fst (run api srv Logout w) = Inr JUndefined"
  by (simp add: logout_def)

subsection \<open>createUser against registerUser\<close>

text \<open>
  C10: \<open>createUser\<close> makes the very call \<open>registerUser\<close> makes, a POST to
  \<open>/users/register\<close>, and leaves \<open>localStorage\<close> as it was, whatever the server
  answers. On the same successful answer \<open>registerUser\<close> stores the token and
  \<open>createUser\<close> does not.
\<close>

theorem createUser_keeps_storage:
  "storage (snd (createUser api srv userData w)) = storage w
   \<and> (\<exists>c. fetches (snd (createUser api srv userData w)) = fetches w @ [c]
          \<and> fetches (snd (registerUser api srv userData w)) = fetches w @ [c]
          \<and> url c = baseURL api @ ''/users/register''
          \<and> http_method c = ''POST'')
   \<and> fst (createUser example_api (reply alice_200) alice fresh_world) = Inr alice
   \<and> storage (snd (createUser example_api (reply alice_200) alice fresh_world)) ''authToken'' = None
   \<and> storage (snd (registerUser example_api (reply alice_200) alice fresh_world)) ''authToken''
       = Some ''tok''"
proof -
  have general: "storage (snd (createUser api srv userData w)) = storage w
     \<and> (\<exists>c. fetches (snd (createUser api srv userData w)) = fetches w @ [c]
          \<and> fetches (snd (registerUser api srv userData w)) = fetches w @ [c]
          \<and> url c = baseURL api @ ''/users/register''
          \<and> http_method c = ''POST'')"
    by (simp add: createUser_def snd_request fetches_registerUser json_init_def
        request_call_def http_method_def)
  have created: "createUser example_api (reply alice_200) alice fresh_world =
      (Inr alice, fresh_world\<lparr>fetches := [request_call example_api ''/users/register''
          (json_init ''POST'' alice) fresh_world]\<rparr>)"
    by (simp add: createUser_def request_def do_fetch_def reply_def alice_200_def ok_def
        json_init_def fresh_world_def)
  have registered: "storage (snd (registerUser example_api (reply alice_200) alice fresh_world))
       ''authToken'' = Some ''tok''"
    by (simp add: registerUser_def request_def do_fetch_def reply_def alice_200_def ok_def
        store_token_and_return_def alice_def)
  from general created registered show ?thesis
    by (simp add: fresh_world_def)
qed

subsection \<open>Non-success responses\<close>

lemma failure_of_unparsable:
  "json_body r = Inl x \<Longrightarrow> failure_of r = Exn ''Error'' ''Unknown error''"
  by (simp add: failure_of_def js_or_def new_Error_def)

lemma failure_of_no_message:
  "json_body r = Inr v \<Longrightarrow> get_prop v ''message'' = Inr JUndefined \<Longrightarrow>
   failure_of r = Exn ''Error'' ''API request failed''"
  by (simp add: failure_of_def js_or_def new_Error_def)

lemma failure_of_string_message:
  "json_body r = Inr v \<Longrightarrow> get_prop v ''message'' = Inr (JStr s) \<Longrightarrow>
   failure_of r = Exn ''Error'' (if s \<noteq> [] then s else ''API request failed'')"
  by (simp add: failure_of_def js_or_def new_Error_def)

lemma fst_request_not_ok:
  "srv (request_call api endpoint options w) = Inr r \<Longrightarrow> \<not> ok r \<Longrightarrow>
   fst (request api srv endpoint options w) = Inl (failure_of r)"
  by (simp add: request_def do_fetch_def)

lemma request_not_ok:
  "srv (request_call api endpoint options w) = Inr r \<Longrightarrow> \<not> ok r \<Longrightarrow>
   request api srv endpoint options w =
     (Inl (failure_of r), w\<lparr>fetches := fetches w @ [request_call api endpoint options w]\<rparr>)"
  by (simp add: request_def do_fetch_def)

lemma run_not_ok:
  assumes "op \<noteq> Logout" and "op \<noteq> GetCurrentUser"
    and "srv (last (fetches w @ issued api op w)) = Inr r" and "\<not> ok r"
  shows "fst (run api srv op w) =
     Inl (case op of DownloadPDF ident \<Rightarrow> Exn ''Error'' ''Failed to download PDF''
          | _ \<Rightarrow> failure_of r)"
  using assms
  by (cases op)
     (simp_all add: request_not_ok login_def registerUser_def getJobs_def getJob_def
        createJob_def updateJob_def deleteJob_def claimJob_def updateJobStatus_def
        getUsers_def createUser_def updateUser_def deleteUser_def discard_def
        submitPDF_def downloadPDF_def do_fetch_def json_init_def bare_init_def)

lemma to_string_thrown:
  "(to_string v = Inl e \<longrightarrow> e = to_primitive_error)"
  "(join xs = Inl e \<longrightarrow> e = to_primitive_error)"
  by (induction v and xs rule: to_string_join.induct)
     (auto split: sum.splits if_splits)

lemma get_prop_thrown: "get_prop v k = Inl e \<Longrightarrow> e = null_property_error"
  by (cases v) simp_all

lemma failure_of_falsy_message:
  "json_body r = Inr v \<Longrightarrow> get_prop v ''message'' = Inr m \<Longrightarrow> \<not> truthy m \<Longrightarrow>
   failure_of r = Exn ''Error'' ''API request failed''"
  by (simp add: failure_of_def js_or_def new_Error_def)

lemma failure_of_empty_message:
  assumes "exn_message (failure_of r) = []"
  shows "\<exists>v m. json_body r = Inr v \<and> get_prop v ''message'' = Inr m \<and> truthy m
     \<and> to_string m = Inr []"
proof (cases "json_body r")
  case (Inl x)
  with assms show ?thesis by (simp add: failure_of_unparsable)
next
  case (Inr v)
  show ?thesis
  proof (cases "get_prop v ''message''")
    case (Inl e)
    then have "e = null_property_error" by (rule get_prop_thrown)
    with Inr Inl assms show ?thesis
      by (simp add: failure_of_def null_property_error_def)
  next
    case m: (Inr m)
    show ?thesis
    proof (cases "truthy m")
      case False
      with Inr m assms show ?thesis by (simp add: failure_of_falsy_message)
    next
      case True
      then have defined: "m \<noteq> JUndefined" by auto
      show ?thesis
      proof (cases "to_string m")
        case (Inl e)
        then have "e = to_primitive_error" using to_string_thrown(1) [of m e] by simp
        with Inr m True defined Inl assms show ?thesis
          by (simp add: failure_of_def js_or_def new_Error_def to_primitive_error_def)
      next
        case s: (Inr s)
        with Inr m True defined assms have "s = []"
          by (simp add: failure_of_def js_or_def new_Error_def)
        with Inr m True s show ?thesis by simp
      qed
    qed
  qed
qed

lemma getCurrentUser_not_ok:
  assumes "srv (last (fetches w @ issued api GetCurrentUser w)) = Inr r" and "\<not> ok r"
  shows "fst (run api srv GetCurrentUser w) = Inr JNull"
  using assms by (simp add: getCurrentUser_def request_not_ok)

text \<open>
  C2, as the code has it. When the response to the request of a method is not a
  success:
  \<^item> \<open>getCurrentUser\<close> resolves with \<open>null\<close>;
  \<^item> \<open>downloadPDF\<close> rejects with \<open>Failed to download PDF\<close>;
  \<^item> every other method that sends a request rejects: with \<open>Unknown error\<close> when
    the body is not JSON, with \<open>API request failed\<close> when the \<open>message\<close> of the
    parsed payload is missing or falsy, with the \<open>message\<close> itself when it is a
    non-empty string; and the message of the error is empty only when the \<open>message\<close>
    of the payload is truthy and its string is empty.
\<close>

theorem non_success_rejects:
  assumes "op \<noteq> Logout"
    and "srv (last (fetches (snd (run api srv op w)))) = Inr r" and "\<not> ok r"
  shows "(op = GetCurrentUser \<longrightarrow> fst (run api srv op w) = Inr JNull)
     \<and> ((\<exists>ident. op = DownloadPDF ident) \<longrightarrow>
          fst (run api srv op w) = Inl (Exn ''Error'' ''Failed to download PDF''))
     \<and> (op \<noteq> GetCurrentUser \<and> (\<forall>ident. op \<noteq> DownloadPDF ident) \<longrightarrow>
          (\<exists>e. fst (run api srv op w) = Inl e
             \<and> ((\<forall>v. json_body r \<noteq> Inr v) \<longrightarrow> e = Exn ''Error'' ''Unknown error'')
             \<and> (\<forall>v m. json_body r = Inr v \<and> get_prop v ''message'' = Inr m \<and> \<not> truthy m
                  \<longrightarrow> e = Exn ''Error'' ''API request failed'')
             \<and> (\<forall>v s. json_body r = Inr v \<and> get_prop v ''message'' = Inr (JStr s) \<and> s \<noteq> []
                  \<longrightarrow> e = Exn ''Error'' s)
             \<and> (exn_message e = [] \<longrightarrow>
                  (\<exists>v m. json_body r = Inr v \<and> get_prop v ''message'' = Inr m \<and> truthy m
                     \<and> to_string m = Inr []))))"
proof -
  from assms(2) have call: "srv (last (fetches w @ issued api op w)) = Inr r"
    by (simp only: fetches_run)
  show ?thesis
  proof (intro conjI impI)
    assume "op = GetCurrentUser"
    with call assms(3) show "fst (run api srv op w) = Inr JNull"
      using getCurrentUser_not_ok [of srv w api r] by simp
  next
    assume "\<exists>ident. op = DownloadPDF ident"
    then obtain ident where "op = DownloadPDF ident" by blast
    with call assms(3)
    show "fst (run api srv op w) = Inl (Exn ''Error'' ''Failed to download PDF'')"
      using run_not_ok [of op srv w api r] by simp
  next
  assume other: "op \<noteq> GetCurrentUser \<and> (\<forall>ident. op \<noteq> DownloadPDF ident)"
  with call assms(1,3) have "fst (run api srv op w) =
     Inl (case op of DownloadPDF ident \<Rightarrow> Exn ''Error'' ''Failed to download PDF''
          | _ \<Rightarrow> failure_of r)"
    using run_not_ok [of op srv w api r] by simp
  with other have rejected: "fst (run api srv op w) = Inl (failure_of r)"
    by (cases op) simp_all
  have unparsable: "failure_of r = Exn ''Error'' ''Unknown error''"
    if "\<forall>v. json_body r \<noteq> Inr v"
  proof -
    from that obtain x where "json_body r = Inl x" by (cases "json_body r") auto
    then show ?thesis by (rule failure_of_unparsable)
  qed
  have falsy: "failure_of r = Exn ''Error'' ''API request failed''"
    if "json_body r = Inr v \<and> get_prop v ''message'' = Inr m \<and> \<not> truthy m" for v m
    using that by (simp add: failure_of_falsy_message)
  have worded: "failure_of r = Exn ''Error'' s"
    if "json_body r = Inr v \<and> get_prop v ''message'' = Inr (JStr s) \<and> s \<noteq> []" for v s
    using that by (simp add: failure_of_string_message)
  have empty: "\<exists>v m. json_body r = Inr v \<and> get_prop v ''message'' = Inr m \<and> truthy m
                     \<and> to_string m = Inr []"
    if "exn_message (failure_of r) = []"
    using that by (rule failure_of_empty_message)
  from rejected unparsable falsy worded empty
  show "\<exists>e. fst (run api srv op w) = Inl e
             \<and> ((\<forall>v. json_body r \<noteq> Inr v) \<longrightarrow> e = Exn ''Error'' ''Unknown error'')
             \<and> (\<forall>v m. json_body r = Inr v \<and> get_prop v ''message'' = Inr m \<and> \<not> truthy m
                  \<longrightarrow> e = Exn ''Error'' ''API request failed'')
             \<and> (\<forall>v s. json_body r = Inr v \<and> get_prop v ''message'' = Inr (JStr s) \<and> s \<noteq> []
                  \<longrightarrow> e = Exn ''Error'' s)
             \<and> (exn_message e = [] \<longrightarrow>
                  (\<exists>v m. json_body r = Inr v \<and> get_prop v ''message'' = Inr m \<and> truthy m
                     \<and> to_string m = Inr []))"
    by blast
  qed
qed

text \<open>
  An HTML page under a 500, a message under a 404, a payload without message under a
  403 and \<open>null\<close> under a 500, each with the error the method rejects with;
  \<open>downloadPDF\<close> and \<open>getCurrentUser\<close> on the first.
\<close>

theorem non_success_rejects_witness:
  "GetUsers \<noteq> Logout
   \<and> reply html_500 (last (fetches (snd (run example_api (reply html_500) GetUsers fresh_world))))
       = Inr html_500
   \<and> \<not> ok html_500 \<and> \<not> ok not_found_404 \<and> \<not> ok bare_403 \<and> \<not> ok null_500
   \<and> fst (run example_api (reply html_500) GetUsers fresh_world) =
       Inl (Exn ''Error'' ''Unknown error'')
   \<and> fst (run example_api (reply not_found_404) (GetJob ''42'') fresh_world) =
       Inl (Exn ''Error'' ''Job not found'')
   \<and> fst (run example_api (reply bare_403) (ClaimJob ''42'') fresh_world) =
       Inl (Exn ''Error'' ''API request failed'')
   \<and> isl (fst (run example_api (reply null_500) (CreateJob alice_form) fresh_world))
   \<and> exn_message (projl (fst (run example_api (reply null_500) (CreateJob alice_form)
        fresh_world))) \<noteq> []
   \<and> fst (run example_api (reply html_500) (DownloadPDF ''7'') fresh_world) =
       Inl (Exn ''Error'' ''Failed to download PDF'')
   \<and> fst (run example_api (reply html_500) GetCurrentUser fresh_world) = Inr JNull"
proof -
  have codes: "\<not> ok html_500" "\<not> ok not_found_404" "\<not> ok bare_403" "\<not> ok null_500"
    by (simp_all add: ok_def html_500_def not_found_404_def bare_403_def null_500_def)
  have answered: "reply r c = Inr r" for r c
    by (simp add: reply_def)
  have unparsable: "fst (run example_api (reply html_500) GetUsers fresh_world) =
       Inl (Exn ''Error'' ''Unknown error'')"
    using non_success_rejects [of GetUsers "reply html_500" example_api fresh_world html_500]
      codes(1) answered
    by (auto simp: html_500_def)
  have worded: "fst (run example_api (reply not_found_404) (GetJob ''42'') fresh_world) =
       Inl (Exn ''Error'' ''Job not found'')"
    using non_success_rejects [of "GetJob ''42''" "reply not_found_404" example_api fresh_world
        not_found_404] codes(2) answered
    by (auto simp: not_found_404_def)
  have fallback: "fst (run example_api (reply bare_403) (ClaimJob ''42'') fresh_world) =
       Inl (Exn ''Error'' ''API request failed'')"
    using non_success_rejects [of "ClaimJob ''42''" "reply bare_403" example_api fresh_world
        bare_403] codes(3) answered
    by (auto simp: bare_403_def)
  have null_payload:
    "isl (fst (run example_api (reply null_500) (CreateJob alice_form) fresh_world))
     \<and> exn_message (projl (fst (run example_api (reply null_500) (CreateJob alice_form)
        fresh_world))) \<noteq> []"
    using non_success_rejects [of "CreateJob alice_form" "reply null_500" example_api fresh_world
        null_500] codes(4) answered
    by (auto simp: null_500_def)
  have download: "fst (run example_api (reply html_500) (DownloadPDF ''7'') fresh_world) =
       Inl (Exn ''Error'' ''Failed to download PDF'')"
    using non_success_rejects [of "DownloadPDF ''7''" "reply html_500" example_api fresh_world
        html_500] codes(1) answered
    by auto
  have current: "fst (run example_api (reply html_500) GetCurrentUser fresh_world) = Inr JNull"
    using non_success_rejects [of GetCurrentUser "reply html_500" example_api fresh_world
        html_500] codes(1) answered
    by auto
  from codes answered unparsable worded fallback null_payload download current
  show ?thesis by simp
qed

text \<open>
  C2 as stated fails twice. On the 500 above \<open>getCurrentUser\<close> does not reject: it
  resolves with \<open>null\<close>. On a 400 whose payload is \<open>{"message": []}\<close> the array is
  truthy, so it is what \<open>new Error\<close> receives, and its string is empty: \<open>getUsers\<close>
  rejects with an error whose message is the empty string.
\<close>

theorem non_success_rejects_counterexample:
  "\<not> ok html_500
   \<and> fst (run example_api (reply html_500) GetCurrentUser fresh_world) = Inr JNull
   \<and> \<not> ok array_400
   \<and> fst (run example_api (reply array_400) GetUsers fresh_world) = Inl (Exn ''Error'' [])"
  by (simp add: ok_def html_500_def array_400_def getCurrentUser_def getUsers_def request_def
      do_fetch_def reply_def failure_of_def js_or_def new_Error_def)

subsection \<open>One call per method, as documented\<close>

lemma issued_documented:
  assumes "op \<noteq> Logout"
  shows "\<exists>c. issued api op w = [c] \<and> http_method c = documented_method op
     \<and> url c = baseURL api @ documented_path op @ query_of op
     \<and> init_body (init c) = documented_body op"
  using assms
  by (cases op)
     (simp_all add: request_call_def http_method_def json_init_def bare_init_def no_options_def
        submitPDF_call_def downloadPDF_call_def jobs_endpoint_def Let_def)

text \<open>
  C3, as the code has it. Every method other than \<open>logout\<close> makes exactly one
  \<open>fetch\<close> call, whatever the server answers, with the documented HTTP method, the
  base URL followed by the documented path (and, for \<open>getJobs\<close> with a filter set,
  the query string) and the documented body. \<open>logout\<close> makes no call.
\<close>

theorem one_call_as_documented:
  "(op \<noteq> Logout \<longrightarrow>
      (\<exists>c. fetches (snd (run api srv op w)) = fetches w @ [c]
          \<and> http_method c = documented_method op
          \<and> url c = baseURL api @ documented_path op @ query_of op
          \<and> init_body (init c) = documented_body op))
   \<and> fetches (snd (run api srv Logout w)) = fetches w"
proof (intro conjI impI)
  assume "op \<noteq> Logout"
  from issued_documented [OF this, of api w] show
    "\<exists>c. fetches (snd (run api srv op w)) = fetches w @ [c]
          \<and> http_method c = documented_method op
          \<and> url c = baseURL api @ documented_path op @ query_of op
          \<and> init_body (init c) = documented_body op"
    by (auto simp: fetches_run)
next
  show "fetches (snd (run api srv Logout w)) = fetches w"
    by (simp add: logout_def)
qed

text \<open>\<open>claimJob('42')\<close>: one POST to \<open>/jobs/42/claim\<close> without a body.\<close>

theorem one_call_as_documented_witness:
  "ClaimJob ''42'' \<noteq> Logout
   \<and> length (fetches (snd (run example_api srv_down (ClaimJob ''42'') fresh_world))) = 1
   \<and> http_method (last (fetches (snd (run example_api srv_down (ClaimJob ''42'') fresh_world))))
       = ''POST''
   \<and> url (last (fetches (snd (run example_api srv_down (ClaimJob ''42'') fresh_world))))
       = ''https://api.example/jobs/42/claim''
   \<and> init_body (init (last (fetches (snd (run example_api srv_down (ClaimJob ''42'') fresh_world)))))
       = None"
  using one_call_as_documented [of "ClaimJob ''42''" example_api srv_down fresh_world]
  by (auto simp: fresh_world_def example_api_def)

text \<open>
  C3 as stated fails at \<open>logout\<close>, a method of the same object: it makes no HTTP
  call at all.
\<close>

theorem one_call_as_documented_counterexample:
  "fetches (snd (run example_api (reply alice_200) Logout fresh_world)) = []"
  by (simp add: logout_def fresh_world_def)

subsection \<open>Login and registration store the token\<close>

text \<open>
  C4: \<open>login\<close> and \<open>registerUser\<close> make one request. When the server answers it
  with a success whose decoded body \<open>v\<close> has a token with the string \<open>t\<close>, the call
  resolves with the \<open>id\<close>, \<open>name\<close>, \<open>email\<close> and \<open>role\<close> of \<open>v\<close>, and the
  state in which it resolves is the old \<open>localStorage\<close> with \<open>t\<close> under
  \<open>authToken\<close>. Conversely, whenever the call resolves, the server answered so and
  the token is stored.
\<close>

theorem token_stored_on_success:
  assumes "stores_token op"
  shows "\<exists>c. fetches (snd (run api srv op w)) = fetches w @ [c]
     \<and> (\<forall>r v tok t.
          srv c = Inr r \<and> ok r \<and> json_body r = Inr v
          \<and> get_prop v ''token'' = Inr tok \<and> to_string tok = Inr t \<longrightarrow>
            (\<exists>i n m ro. get_prop v ''id'' = Inr i \<and> get_prop v ''name'' = Inr n
               \<and> get_prop v ''email'' = Inr m \<and> get_prop v ''role'' = Inr ro
               \<and> fst (run api srv op w) =
                   Inr (JObj [(''id'', i), (''name'', n), (''email'', m), (''role'', ro)]))
            \<and> storage (snd (run api srv op w)) = (storage w)(''authToken'' \<mapsto> t))
     \<and> (\<forall>u. fst (run api srv op w) = Inr u \<longrightarrow>
          (\<exists>r v tok t.
             srv c = Inr r \<and> ok r \<and> json_body r = Inr v
             \<and> get_prop v ''token'' = Inr tok \<and> to_string tok = Inr t
             \<and> user_of v = Inr u
             \<and> storage (snd (run api srv op w)) = (storage w)(''authToken'' \<mapsto> t)
             \<and> (\<forall>s. tok = JStr s \<longrightarrow>
                   storage (snd (run api srv op w)) ''authToken'' = Some s)))"
  using assms by (rule stores_token_outcome)

text \<open>
  A browser that holds the token \<open>old\<close>; the server answers with Alice's record and
  the token \<open>tok\<close>. Both \<open>login\<close> and \<open>registerUser\<close> resolve with the record
  less its token and leave \<open>tok\<close> stored.
\<close>

theorem token_stored_on_success_witness:
  "stores_token (Login ''a@x.org'' ''pw'') \<and> stores_token (RegisterUser alice_form)
   \<and> ok alice_200 \<and> json_body alice_200 = Inr alice
   \<and> get_prop alice ''token'' = Inr (JStr ''tok'') \<and> to_string (JStr ''tok'') = Inr ''tok''
   \<and> storage (world_with_token ''old'') ''authToken'' = Some ''old''
   \<and> fst (run example_api (reply alice_200) (Login ''a@x.org'' ''pw'') (world_with_token ''old'')) =
       Inr (JObj [(''id'', JStr ''u1''), (''name'', JStr ''Alice''),
                  (''email'', JStr ''a@x.org''), (''role'', JStr ''member'')])
   \<and> storage (snd (run example_api (reply alice_200) (Login ''a@x.org'' ''pw'')
                     (world_with_token ''old''))) ''authToken'' = Some ''tok''
   \<and> fst (run example_api (reply alice_200) (RegisterUser alice_form) (world_with_token ''old'')) =
       Inr (JObj [(''id'', JStr ''u1''), (''name'', JStr ''Alice''),
                  (''email'', JStr ''a@x.org''), (''role'', JStr ''member'')])
   \<and> storage (snd (run example_api (reply alice_200) (RegisterUser alice_form)
                     (world_with_token ''old''))) ''authToken'' = Some ''tok''"
proof -
  have answered: "reply alice_200 c = Inr alice_200 \<and> ok alice_200
      \<and> json_body alice_200 = Inr alice
      \<and> get_prop alice ''token'' = Inr (JStr ''tok'') \<and> to_string (JStr ''tok'') = Inr ''tok''"
    for c
    by (simp add: alice_200_answer alice_fields)
  have stored: "fst (run example_api (reply alice_200) op (world_with_token ''old'')) =
       Inr (JObj [(''id'', JStr ''u1''), (''name'', JStr ''Alice''),
                  (''email'', JStr ''a@x.org''), (''role'', JStr ''member'')])
     \<and> storage (snd (run example_api (reply alice_200) op (world_with_token ''old'')))
         ''authToken'' = Some ''tok''"
    if "stores_token op" for op
  proof -
    from token_stored_on_success [OF that, of example_api "reply alice_200"
        "world_with_token ''old''"]
    obtain c where
      "\<forall>r v tok t.
          reply alice_200 c = Inr r \<and> ok r \<and> json_body r = Inr v
          \<and> get_prop v ''token'' = Inr tok \<and> to_string tok = Inr t \<longrightarrow>
            (\<exists>i n m ro. get_prop v ''id'' = Inr i \<and> get_prop v ''name'' = Inr n
               \<and> get_prop v ''email'' = Inr m \<and> get_prop v ''role'' = Inr ro
               \<and> fst (run example_api (reply alice_200) op (world_with_token ''old'')) =
                   Inr (JObj [(''id'', i), (''name'', n), (''email'', m), (''role'', ro)]))
            \<and> storage (snd (run example_api (reply alice_200) op (world_with_token ''old''))) =
                (storage (world_with_token ''old''))(''authToken'' \<mapsto> t)"
      by blast
    with answered [of c] have
      "(\<exists>i n m ro. get_prop alice ''id'' = Inr i \<and> get_prop alice ''name'' = Inr n
               \<and> get_prop alice ''email'' = Inr m \<and> get_prop alice ''role'' = Inr ro
               \<and> fst (run example_api (reply alice_200) op (world_with_token ''old'')) =
                   Inr (JObj [(''id'', i), (''name'', n), (''email'', m), (''role'', ro)]))
       \<and> storage (snd (run example_api (reply alice_200) op (world_with_token ''old''))) =
                (storage (world_with_token ''old''))(''authToken'' \<mapsto> ''tok'')"
      by blast
    then show ?thesis by (auto simp: alice_fields)
  qed
  have "stores_token (Login ''a@x.org'' ''pw'')" and "stores_token (RegisterUser alice_form)"
    by simp_all
  moreover have "storage (world_with_token ''old'') ''authToken'' = Some ''old''"
    by (simp add: world_with_token_def)
  moreover note stored [of "Login ''a@x.org'' ''pw''"] stored [of "RegisterUser alice_form"]
    answered
  ultimately show ?thesis by simp
qed

subsection \<open>What the methods read and write in the browser\<close>

lemma storage_then_store:
  "k \<noteq> ''authToken'' \<Longrightarrow>
   storage (snd (case request api srv endpoint options w of
                   (Inl e, w1) \<Rightarrow> (Inl e, w1)
                 | (Inr r, w1) \<Rightarrow> store_token_and_return r w1)) k = storage w k"
proof (cases "request api srv endpoint options w")
  case (Pair res w1)
  assume k: "k \<noteq> ''authToken''"
  from Pair have "w1 = snd (request api srv endpoint options w)" by simp
  then have "storage w1 = storage w" by (simp add: snd_request)
  with Pair k show ?thesis
    by (cases res) (simp_all add: storage_store_token)
qed

lemma storage_run_unchanged:
  assumes "\<not> stores_token op" and "op \<noteq> Logout"
  shows "storage (snd (run api srv op w)) = storage w"
  using assms
  by (cases op)
     (simp_all add: snd_getCurrentUser snd_request snd_discard snd_submitPDF storage_downloadPDF
        getJobs_def getJob_def createJob_def updateJob_def deleteJob_def claimJob_def
        updateJobStatus_def getUsers_def createUser_def updateUser_def deleteUser_def)

lemma storage_run_other:
  assumes "k \<noteq> ''authToken''"
  shows "storage (snd (run api srv op w)) k = storage w k"
proof (cases "stores_token op \<or> op = Logout")
  case False
  then show ?thesis by (simp add: storage_run_unchanged)
next
  case True
  with assms show ?thesis
    by (cases op) (simp_all add: login_def registerUser_def storage_then_store logout_def)
qed

lemma default_headers_reads_token:
  "s ''authToken'' = storage w ''authToken'' \<Longrightarrow>
   default_headers (w\<lparr>storage := s\<rparr>) = default_headers w"
  by (simp add: default_headers_def)

lemma request_call_reads_token:
  "s ''authToken'' = storage w ''authToken'' \<Longrightarrow>
   request_call api endpoint options (w\<lparr>storage := s\<rparr>) = request_call api endpoint options w"
  by (simp add: request_call_def default_headers_reads_token)

lemma request_reads_token:
  assumes "s ''authToken'' = storage w ''authToken''"
  shows "request api srv endpoint options (w\<lparr>storage := s\<rparr>) =
     (fst (request api srv endpoint options w),
      (snd (request api srv endpoint options w))\<lparr>storage := s\<rparr>)"
  using assms
  by (simp add: request_def do_fetch_def request_call_reads_token split: sum.splits)

lemma fst_store_token: "fst (store_token_and_return r w) = fst (store_token_and_return r w')"
  by (simp add: store_token_and_return_def split: sum.splits)

lemma then_store_reads_token:
  assumes "s ''authToken'' = storage w ''authToken''"
  shows "fst (case request api srv endpoint options (w\<lparr>storage := s\<rparr>) of
                (Inl e, w1) \<Rightarrow> (Inl e, w1)
              | (Inr r, w1) \<Rightarrow> store_token_and_return r w1) =
         fst (case request api srv endpoint options w of
                (Inl e, w1) \<Rightarrow> (Inl e, w1)
              | (Inr r, w1) \<Rightarrow> store_token_and_return r w1)"
proof (cases "request api srv endpoint options w")
  case (Pair res w1)
  then have "request api srv endpoint options (w\<lparr>storage := s\<rparr>) = (res, w1\<lparr>storage := s\<rparr>)"
    using request_reads_token [where s = s and w = w, OF assms, of api srv endpoint options] by simp
  with Pair show ?thesis
    by (cases res) (simp_all add: fst_store_token [of _ "w1\<lparr>storage := s\<rparr>" w1])
qed

lemma issued_reads_token:
  assumes "s ''authToken'' = storage w ''authToken''"
  shows "issued api op (w\<lparr>storage := s\<rparr>) = issued api op w"
  using assms
  by (cases op)
     (simp_all add: request_call_reads_token submitPDF_call_def downloadPDF_call_def
        getItem_text_def)

lemma fst_run_reads_token:
  assumes "s ''authToken'' = storage w ''authToken''"
  shows "fst (run api srv op (w\<lparr>storage := s\<rparr>)) = fst (run api srv op w)"
proof (cases op)
  case (Login email password)
  then show ?thesis using then_store_reads_token [where s = s and w = w, OF assms] by (simp add: login_def)
next
  case (RegisterUser userData)
  then show ?thesis using then_store_reads_token [where s = s and w = w, OF assms] by (simp add: registerUser_def)
next
  case Logout
  then show ?thesis by (simp add: logout_def)
next
  case GetCurrentUser
  then show ?thesis
    by (simp add: getCurrentUser_def request_reads_token [where s = s and w = w, OF assms] split: prod.splits sum.splits)
next
  case (SubmitPDF ident f)
  have "submitPDF_call api ident f (w\<lparr>storage := s\<rparr>) = submitPDF_call api ident f w"
    using assms by (simp add: submitPDF_call_def getItem_text_def)
  with SubmitPDF show ?thesis
    by (simp add: submitPDF_def do_fetch_def split: sum.splits)
next
  case (DownloadPDF ident)
  have "downloadPDF_call api ident (w\<lparr>storage := s\<rparr>) = downloadPDF_call api ident w"
    using assms by (simp add: downloadPDF_call_def getItem_text_def)
  with DownloadPDF show ?thesis
    by (simp add: downloadPDF_def do_fetch_def split: sum.splits)
qed (simp_all add: request_reads_token [where s = s and w = w, OF assms] getJobs_def getJob_def createJob_def
       updateJob_def deleteJob_def claimJob_def updateJobStatus_def getUsers_def createUser_def
       updateUser_def deleteUser_def discard_def split: prod.splits sum.splits)

text \<open>
  C5: of \<open>localStorage\<close> a call touches the \<open>authToken\<close> entry only. Every other
  entry is left as it was by every method. A method other than \<open>login\<close>,
  \<open>registerUser\<close> and \<open>logout\<close> leaves the whole of \<open>localStorage\<close> as it was.
  \<open>login\<close> and \<open>registerUser\<close> write the entry: answered with a success whose
  body has a token with the string \<open>t\<close>, they leave the old \<open>localStorage\<close> with
  \<open>t\<close> under \<open>authToken\<close>, which is also the state whenever they resolve; when
  they reject, \<open>localStorage\<close> is as it was. \<open>logout\<close> leaves the old
  \<open>localStorage\<close> without the entry. And a call reads nothing else: its outcome and
  its requests are the same in two browsers that agree on the \<open>authToken\<close> entry.
\<close>

theorem only_authToken_touched:
  "(\<forall>k. k \<noteq> ''authToken'' \<longrightarrow> storage (snd (run api srv op w)) k = storage w k)
   \<and> (\<not> stores_token op \<and> op \<noteq> Logout \<longrightarrow> storage (snd (run api srv op w)) = storage w)
   \<and> (stores_token op \<longrightarrow>
        (\<exists>c. fetches (snd (run api srv op w)) = fetches w @ [c]
           \<and> (\<forall>r v tok t.
                srv c = Inr r \<and> ok r \<and> json_body r = Inr v
                \<and> get_prop v ''token'' = Inr tok \<and> to_string tok = Inr t \<longrightarrow>
                  storage (snd (run api srv op w)) = (storage w)(''authToken'' \<mapsto> t))
           \<and> (\<forall>u. fst (run api srv op w) = Inr u \<longrightarrow>
                (\<exists>r v tok t.
                   srv c = Inr r \<and> ok r \<and> json_body r = Inr v
                   \<and> get_prop v ''token'' = Inr tok \<and> to_string tok = Inr t
                   \<and> storage (snd (run api srv op w)) = (storage w)(''authToken'' \<mapsto> t)))))
   \<and> (stores_token op \<longrightarrow>
        (\<forall>e. fst (run api srv op w) = Inl e \<longrightarrow>
           storage (snd (run api srv op w)) = storage w))
   \<and> storage (snd (run api srv Logout w)) = (storage w)(''authToken'' := None)
   \<and> (\<forall>s. s ''authToken'' = storage w ''authToken'' \<longrightarrow>
          fst (run api srv op (w\<lparr>storage := s\<rparr>)) = fst (run api srv op w)
          \<and> fetches (snd (run api srv op (w\<lparr>storage := s\<rparr>))) = fetches (snd (run api srv op w)))"
proof (intro conjI allI impI)
  fix k :: string
  assume "k \<noteq> ''authToken''"
  then show "storage (snd (run api srv op w)) k = storage w k"
    by (rule storage_run_other)
next
  assume "\<not> stores_token op \<and> op \<noteq> Logout"
  then show "storage (snd (run api srv op w)) = storage w"
    by (simp add: storage_run_unchanged)
next
  assume "stores_token op"
  from stores_token_outcome [OF this, of api srv w] obtain c where
    c: "fetches (snd (run api srv op w)) = fetches w @ [c]"
    and f: "\<forall>r v tok t.
          srv c = Inr r \<and> ok r \<and> json_body r = Inr v
          \<and> get_prop v ''token'' = Inr tok \<and> to_string tok = Inr t \<longrightarrow>
            (\<exists>i n m ro. get_prop v ''id'' = Inr i \<and> get_prop v ''name'' = Inr n
               \<and> get_prop v ''email'' = Inr m \<and> get_prop v ''role'' = Inr ro
               \<and> fst (run api srv op w) =
                   Inr (JObj [(''id'', i), (''name'', n), (''email'', m), (''role'', ro)]))
            \<and> storage (snd (run api srv op w)) = (storage w)(''authToken'' \<mapsto> t)"
    and b: "\<forall>u. fst (run api srv op w) = Inr u \<longrightarrow>
          (\<exists>r v tok t.
             srv c = Inr r \<and> ok r \<and> json_body r = Inr v
             \<and> get_prop v ''token'' = Inr tok \<and> to_string tok = Inr t
             \<and> user_of v = Inr u
             \<and> storage (snd (run api srv op w)) = (storage w)(''authToken'' \<mapsto> t)
             \<and> (\<forall>s. tok = JStr s \<longrightarrow>
                   storage (snd (run api srv op w)) ''authToken'' = Some s))"
    by (elim exE conjE)
  have forward: "storage (snd (run api srv op w)) = (storage w)(''authToken'' \<mapsto> t)"
    if "srv c = Inr r \<and> ok r \<and> json_body r = Inr v
          \<and> get_prop v ''token'' = Inr tok \<and> to_string tok = Inr t" for r v tok t
    using f [rule_format, OF that] by (rule conjunct2)
  have backward: "\<exists>r v tok t.
             srv c = Inr r \<and> ok r \<and> json_body r = Inr v
             \<and> get_prop v ''token'' = Inr tok \<and> to_string tok = Inr t
             \<and> storage (snd (run api srv op w)) = (storage w)(''authToken'' \<mapsto> t)"
    if "fst (run api srv op w) = Inr u" for u
  proof -
    from b [rule_format, OF that] obtain r v tok t where
      "srv c = Inr r" "ok r" "json_body r = Inr v" "get_prop v ''token'' = Inr tok"
      "to_string tok = Inr t"
      "storage (snd (run api srv op w)) = (storage w)(''authToken'' \<mapsto> t)"
      by (elim exE conjE)
    then show ?thesis by (intro exI conjI)
  qed
  from c forward backward
  show "\<exists>c. fetches (snd (run api srv op w)) = fetches w @ [c]
           \<and> (\<forall>r v tok t.
                srv c = Inr r \<and> ok r \<and> json_body r = Inr v
                \<and> get_prop v ''token'' = Inr tok \<and> to_string tok = Inr t \<longrightarrow>
                  storage (snd (run api srv op w)) = (storage w)(''authToken'' \<mapsto> t))
           \<and> (\<forall>u. fst (run api srv op w) = Inr u \<longrightarrow>
                (\<exists>r v tok t.
                   srv c = Inr r \<and> ok r \<and> json_body r = Inr v
                   \<and> get_prop v ''token'' = Inr tok \<and> to_string tok = Inr t
                   \<and> storage (snd (run api srv op w)) = (storage w)(''authToken'' \<mapsto> t)))"
    by (intro exI [of _ c] conjI allI impI) (assumption, blast, blast)
next
  fix e
  assume st: "stores_token op" and rej: "fst (run api srv op w) = Inl e"
  from run_stores_token [OF st] obtain endpoint options where
    run: "\<And>api srv w. run api srv op w =
       (case request api srv endpoint options w of
          (Inl e, w1) \<Rightarrow> (Inl e, w1)
        | (Inr r, w1) \<Rightarrow> store_token_and_return r w1)"
    by blast
  show "storage (snd (run api srv op w)) = storage w"
  proof (cases "request api srv endpoint options w")
    case (Pair res w1)
    then have "w1 = snd (request api srv endpoint options w)" by simp
    then have w1: "storage w1 = storage w" by (simp add: snd_request)
    show ?thesis
    proof (cases res)
      case (Inl e')
      with Pair w1 show ?thesis by (simp add: run)
    next
      case (Inr r)
      with Pair rej have "fst (store_token_and_return r w1) = Inl e" by (simp add: run)
      then have "snd (store_token_and_return r w1) = w1"
        by (rule store_token_rejected)
      with Pair Inr w1 show ?thesis by (simp add: run)
    qed
  qed
next
  show "storage (snd (run api srv Logout w)) = (storage w)(''authToken'' := None)"
    by (simp add: logout_def)
next
  fix s
  assume "s ''authToken'' = storage w ''authToken''"
  then show "fst (run api srv op (w\<lparr>storage := s\<rparr>)) = fst (run api srv op w)"
    by (rule fst_run_reads_token)
next
  fix s
  assume "s ''authToken'' = storage w ''authToken''"
  then show "fetches (snd (run api srv op (w\<lparr>storage := s\<rparr>))) = fetches (snd (run api srv op w))"
    by (simp add: fetches_run issued_reads_token)
qed

text \<open>
  A browser that holds the token \<open>old\<close> and a \<open>theme\<close> setting. A login or a
  registration answered with the token \<open>tok\<close> replaces \<open>old\<close> by \<open>tok\<close> and
  keeps the setting; with the network down a login leaves everything; \<open>logout\<close>
  removes the token; \<open>getUsers\<close> leaves everything and answers as in a browser
  without the setting.
\<close>

theorem only_authToken_touched_witness:
  "''theme'' \<noteq> ''authToken''
   \<and> storage (snd (run example_api (reply alice_200) (Login ''a@x.org'' ''pw'')
                     (themed_world ''old''))) ''theme'' = Some ''dark''
   \<and> \<not> stores_token GetUsers \<and> GetUsers \<noteq> Logout
   \<and> storage (snd (run example_api (reply alice_200) GetUsers (themed_world ''old'')))
       = storage (themed_world ''old'')
   \<and> stores_token (Login ''a@x.org'' ''pw'') \<and> stores_token (RegisterUser alice_form)
   \<and> ok alice_200 \<and> json_body alice_200 = Inr alice
   \<and> get_prop alice ''token'' = Inr (JStr ''tok'') \<and> to_string (JStr ''tok'') = Inr ''tok''
   \<and> storage (themed_world ''old'') ''authToken'' = Some ''old''
   \<and> storage (snd (run example_api (reply alice_200) (Login ''a@x.org'' ''pw'')
                     (themed_world ''old''))) =
       (storage (themed_world ''old''))(''authToken'' \<mapsto> ''tok'')
   \<and> storage (snd (run example_api (reply alice_200) (Login ''a@x.org'' ''pw'')
                     (themed_world ''old''))) ''authToken'' = Some ''tok''
   \<and> storage (snd (run example_api (reply alice_200) (RegisterUser alice_form)
                     (themed_world ''old''))) =
       (storage (themed_world ''old''))(''authToken'' \<mapsto> ''tok'')
   \<and> storage (snd (run example_api (reply alice_200) (RegisterUser alice_form)
                     (themed_world ''old''))) ''authToken'' = Some ''tok''
   \<and> fst (run example_api srv_down (Login ''a@x.org'' ''pw'') (themed_world ''old'')) =
       Inl (Exn ''TypeError'' ''Failed to fetch'')
   \<and> storage (snd (run example_api srv_down (Login ''a@x.org'' ''pw'') (themed_world ''old'')))
       = storage (themed_world ''old'')
   \<and> storage (snd (run example_api (reply alice_200) Logout (themed_world ''old''))) ''authToken''
       = None
   \<and> storage (themed_world ''old'') ''authToken'' = storage (world_with_token ''old'') ''authToken''
   \<and> fst (run example_api (reply alice_200) GetUsers
             (world_with_token ''old''\<lparr>storage := storage (themed_world ''old'')\<rparr>)) =
       fst (run example_api (reply alice_200) GetUsers (world_with_token ''old''))"
proof -
  have answered: "reply alice_200 c = Inr alice_200 \<and> ok alice_200
      \<and> json_body alice_200 = Inr alice
      \<and> get_prop alice ''token'' = Inr (JStr ''tok'') \<and> to_string (JStr ''tok'') = Inr ''tok''"
    for c
    by (simp add: alice_200_answer alice_fields)
  have old: "storage (themed_world ''old'') ''authToken'' = Some ''old''"
    by (simp add: themed_world_def)
  have written: "storage (snd (run example_api (reply alice_200) op (themed_world ''old''))) =
       (storage (themed_world ''old''))(''authToken'' \<mapsto> ''tok'')"
    if "stores_token op" for op
  proof -
    from only_authToken_touched [of example_api "reply alice_200" op "themed_world ''old''",
        THEN conjunct2, THEN conjunct2, THEN conjunct1, rule_format, OF that]
    obtain c where
      "\<forall>r v tok t.
          reply alice_200 c = Inr r \<and> ok r \<and> json_body r = Inr v
          \<and> get_prop v ''token'' = Inr tok \<and> to_string tok = Inr t \<longrightarrow>
            storage (snd (run example_api (reply alice_200) op (themed_world ''old''))) =
              (storage (themed_world ''old''))(''authToken'' \<mapsto> t)"
      by (elim exE conjE)
    with answered [of c] show ?thesis by blast
  qed
  have rejected:
    "fst (run example_api srv_down (Login ''a@x.org'' ''pw'') (themed_world ''old'')) =
       Inl (Exn ''TypeError'' ''Failed to fetch'')"
    by (simp add: login_def request_def do_fetch_def srv_down_def)
  have same: "storage (themed_world ''old'') ''authToken'' =
      storage (world_with_token ''old'') ''authToken''"
    by (simp add: themed_world_def world_with_token_def)
  have theme: "storage (snd (run example_api (reply alice_200) (Login ''a@x.org'' ''pw'')
                     (themed_world ''old''))) ''theme'' = Some ''dark''"
    using only_authToken_touched [of example_api "reply alice_200" "Login ''a@x.org'' ''pw''"
      "themed_world ''old''", THEN conjunct1, rule_format, of "''theme''"]
    by (simp add: themed_world_def)
  have kept: "storage (snd (run example_api (reply alice_200) GetUsers (themed_world ''old'')))
       = storage (themed_world ''old'')"
    using only_authToken_touched [of example_api "reply alice_200" GetUsers
      "themed_world ''old''", THEN conjunct2, THEN conjunct1]
    by simp
  have untouched: "storage (snd (run example_api srv_down (Login ''a@x.org'' ''pw'')
        (themed_world ''old''))) = storage (themed_world ''old'')"
    using only_authToken_touched [of example_api srv_down "Login ''a@x.org'' ''pw''"
      "themed_world ''old''", THEN conjunct2, THEN conjunct2, THEN conjunct2, THEN conjunct1,
      rule_format, OF _ rejected]
    by simp
  have removed: "storage (snd (run example_api (reply alice_200) Logout (themed_world ''old'')))
      ''authToken'' = None"
    using only_authToken_touched [of example_api "reply alice_200" GetUsers
      "themed_world ''old''", THEN conjunct2, THEN conjunct2, THEN conjunct2, THEN conjunct2,
      THEN conjunct1]
    by simp
  have reads: "fst (run example_api (reply alice_200) GetUsers
             (world_with_token ''old''\<lparr>storage := storage (themed_world ''old'')\<rparr>)) =
       fst (run example_api (reply alice_200) GetUsers (world_with_token ''old''))"
    using only_authToken_touched [of example_api "reply alice_200" GetUsers
      "world_with_token ''old''", THEN conjunct2, THEN conjunct2, THEN conjunct2,
      THEN conjunct2, THEN conjunct2, THEN spec, of "storage (themed_world ''old'')",
      THEN mp, OF same, THEN conjunct1]
    by this
  have login: "stores_token (Login ''a@x.org'' ''pw'')"
    and register: "stores_token (RegisterUser alice_form)"
    by simp_all
  have "''theme'' \<noteq> ''authToken''" by simp
  moreover have "\<not> stores_token GetUsers \<and> GetUsers \<noteq> Logout" by simp
  moreover note login register answered old written [OF login] written [OF register]
    theme kept untouched removed reads rejected same
  ultimately show ?thesis by simp
qed

subsection \<open>The content type of JSON requests\<close>

text \<open>
  C8: the one request of every method that goes through \<open>request\<close> (all but
  \<open>logout\<close>, which sends nothing, \<open>submitPDF\<close> and \<open>downloadPDF\<close>) carries
  \<open>Content-Type: application/json\<close>; so does any request of the helper whose options
  do not set that header themselves, and no method passes headers.
\<close>

theorem content_type_json:
  "(\<not> own_fetch op \<and> op \<noteq> Logout \<longrightarrow>
      (\<exists>c. fetches (snd (run api srv op w)) = fetches w @ [c] \<and>
           header c ''Content-Type'' = Some ''application/json''))
   \<and> ((case init_headers options of None \<Rightarrow> True
         | Some hs \<Rightarrow> ''Content-Type'' \<notin> fst ` set hs) \<longrightarrow>
      (\<exists>c. fetches (snd (request api srv endpoint options w)) = fetches w @ [c] \<and>
           header c ''Content-Type'' = Some ''application/json''))"
proof (intro conjI impI)
  assume "\<not> own_fetch op \<and> op \<noteq> Logout"
  then obtain c where "issued api op w = [c]"
    and "header c ''Content-Type'' = map_of (default_headers w) ''Content-Type''"
    using header_issued [of op api w] by blast
  then show "\<exists>c. fetches (snd (run api srv op w)) = fetches w @ [c] \<and>
           header c ''Content-Type'' = Some ''application/json''"
    by (simp add: fetches_run content_type_default)
next
  assume "case init_headers options of None \<Rightarrow> True
         | Some hs \<Rightarrow> ''Content-Type'' \<notin> fst ` set hs"
  then have "header (request_call api endpoint options w) ''Content-Type'' =
      Some ''application/json''"
    by (simp add: header_request_call content_type_default)
  then show "\<exists>c. fetches (snd (request api srv endpoint options w)) = fetches w @ [c] \<and>
           header c ''Content-Type'' = Some ''application/json''"
    by (simp add: snd_request)
qed

text \<open>\<open>claimJob('42')\<close>, and the helper called on \<open>/users\<close> without options.\<close>

theorem content_type_json_witness:
  "(\<not> own_fetch (ClaimJob ''42'') \<and> ClaimJob ''42'' \<noteq> Logout)
   \<and> header (last (fetches (snd (run example_api srv_down (ClaimJob ''42'') fresh_world))))
        ''Content-Type'' = Some ''application/json''
   \<and> init_headers no_options = None
   \<and> header (last (fetches (snd (request example_api srv_down ''/users'' no_options fresh_world))))
        ''Content-Type'' = Some ''application/json''"
  using content_type_json [of "ClaimJob ''42''" example_api srv_down fresh_world no_options
          "''/users''"]
  by (auto simp: no_options_def fresh_world_def)

subsection \<open>getCurrentUser\<close>

text \<open>
  C9: \<open>getCurrentUser\<close> makes one GET of \<open>/users/me\<close> and always resolves: with the
  decoded body when the response is a success whose body is JSON, and with \<open>null\<close>
  when \<open>fetch\<close> rejects, when the response is not a success and when the body of a
  success is not JSON.
\<close>

theorem getCurrentUser_never_rejects:
  "\<exists>c v. fetches (snd (getCurrentUser api srv w)) = fetches w @ [c]
     \<and> http_method c = ''GET'' \<and> url c = baseURL api @ ''/users/me''
     \<and> fst (getCurrentUser api srv w) = Inr v
     \<and> v = (case srv c of
              Inl e \<Rightarrow> JNull
            | Inr r \<Rightarrow>
                if ok r then (case json_body r of Inl e \<Rightarrow> JNull | Inr u \<Rightarrow> u)
                else JNull)"
proof -
  let ?c = "request_call api ''/users/me'' no_options w"
  have "fetches (snd (getCurrentUser api srv w)) = fetches w @ [?c]"
    by (simp add: snd_getCurrentUser snd_request)
  moreover have "http_method ?c = ''GET''" and "url ?c = baseURL api @ ''/users/me''"
    by (simp_all add: http_method_def request_call_def no_options_def)
  moreover have "fst (getCurrentUser api srv w) =
      Inr (case srv ?c of
              Inl e \<Rightarrow> JNull
            | Inr r \<Rightarrow>
                if ok r then (case json_body r of Inl e \<Rightarrow> JNull | Inr u \<Rightarrow> u)
                else JNull)"
    by (simp add: getCurrentUser_def request_def do_fetch_def split: sum.splits)
  ultimately show ?thesis by blast
qed

subsection \<open>The typed methods over the request helper\<close>








end
